theory Spec2Isabelle
  imports Main "HOL-Library.Word"
begin

unbundle bit_operations_syntax

section \<open>Values, errors and panics\<close>

text \<open>
  A shallow embedding of \<^verbatim>\<open>pkg/lcp\<close> (the file \<^verbatim>\<open>src/pkg/wasm/wasm.go\<close>, second part):
  \<^verbatim>\<open>Decrypt\<close>, \<^verbatim>\<open>listEncryptedFiles\<close>, \<^verbatim>\<open>groupFileEntriesByPath\<close>, \<^verbatim>\<open>getContentKey\<close>,
  \<^verbatim>\<open>decipherAES256CBC\<close>, \<^verbatim>\<open>decipherFontObfuscation\<close> and \<^verbatim>\<open>decryptFile\<close>.

  A Go \<^verbatim>\<open>[]byte\<close> is a list of 8-bit words, a Go \<^verbatim>\<open>string\<close> a list of (8-bit) characters.
  A Go function returning \<^verbatim>\<open>(T, error)\<close> returns a \<open>'a result\<close>: \<open>Ok\<close> for a nil error,
  \<open>Err\<close> for an error value, and \<open>Panicked\<close> for a run-time panic, which no function of
  the package recovers and which therefore unwinds through every caller unchanged.
\<close>

type_synonym byte = "8 word"

datatype panic =
    SliceBoundsOutOfRange   \<comment> \<open>\<^verbatim>\<open>slice bounds out of range\<close>\<close>
  | IndexOutOfRange         \<comment> \<open>\<^verbatim>\<open>index out of range [-1]\<close>\<close>
  | InputNotFullBlocks      \<comment> \<open>\<^verbatim>\<open>crypto/cipher: input not full blocks\<close>\<close>
  | NilDereference          \<comment> \<open>\<^verbatim>\<open>invalid memory address or nil pointer dereference\<close>\<close>

datatype error =
    Errorf string                       \<comment> \<open>\<^verbatim>\<open>fmt.Errorf(msg)\<close>, nothing wrapped\<close>
  | Wrap string error                   \<comment> \<open>\<^verbatim>\<open>fmt.Errorf("<context>: %w", err)\<close>\<close>
  | LibError string                     \<comment> \<open>an error value of the standard library or of the I/O layer\<close>
  | KeySizeError nat                    \<comment> \<open>\<^verbatim>\<open>aes.KeySizeError\<close>\<close>
  | InvalidPadding nat nat              \<comment> \<open>\<^verbatim>\<open>invalid padding length %d (data length is %d)\<close>\<close>
  | KeyCheckMismatch "byte list" string \<comment> \<open>\<^verbatim>\<open>decrypted key check (%s) does not match license ID (%s)\<close>\<close>
  | DecodePath string error             \<comment> \<open>\<^verbatim>\<open>error decoding entry path %q: %w\<close>\<close>
  | UnsupportedAlgorithm string string  \<comment> \<open>\<^verbatim>\<open>unsupported encryption algorithm for file %s: %s\<close>\<close>
  | InvalidAlgorithm string             \<comment> \<open>\<^verbatim>\<open>invalid encryption algorithm: %s\<close>\<close>
  | EscapeError string                  \<comment> \<open>\<^verbatim>\<open>url.EscapeError\<close>\<close>
  | ErrLength                           \<comment> \<open>\<^verbatim>\<open>hex.ErrLength\<close>\<close>
  | InvalidByteError char               \<comment> \<open>\<^verbatim>\<open>hex.InvalidByteError\<close>\<close>
  | CommentTooLong                      \<comment> \<open>\<^verbatim>\<open>zip: Writer.Comment too long\<close>\<close>

datatype 'a result = Ok 'a | Err error | Panicked panic

text \<open>\<^verbatim>\<open>x, err := f(); if err != nil { return fmt.Errorf("ctx: %w", err) }\<close> and then the rest.\<close>

definition or_wrap :: "string \<Rightarrow> 'a result \<Rightarrow> ('a \<Rightarrow> 'b result) \<Rightarrow> 'b result" where
  "or_wrap ctx r rest =
     (case r of Ok x \<Rightarrow> rest x | Err e \<Rightarrow> Err (Wrap ctx e) | Panicked p \<Rightarrow> Panicked p)"

definition string_of_bytes :: "byte list \<Rightarrow> string" where
  "string_of_bytes bs = map (\<lambda>b. char_of (unat b)) bs"

definition bytes_of_string :: "string \<Rightarrow> byte list" where
  "bytes_of_string s = map (\<lambda>c. of_char c) s"

text \<open>\<^verbatim>\<open>strings.HasSuffix(name, "/")\<close>\<close>

definition is_dir :: "string \<Rightarrow> bool" where
  "is_dir name = (name \<noteq> [] \<and> last name = CHR ''/'')"

section \<open>Data model\<close>

text \<open>An \<^verbatim>\<open>io.Reader\<close>: the bytes it delivers, then end of file or a read error.\<close>

record stream =
  sbytes :: "byte list"
  serror :: "error option"

text \<open>The anonymous struct decoded from the license document in \<^verbatim>\<open>getContentKey\<close>.\<close>

record license =
  ID :: string
  EncryptedValue :: string
  KeyCheck :: string

text \<open>
  One \<^verbatim>\<open>EncryptedData\<close> element of the struct decoded in \<^verbatim>\<open>listEncryptedFiles\<close>:
  \<open>Compression\<close> holds, for every \<^verbatim>\<open>EncryptionProperty\<close>, the \<^verbatim>\<open>Method\<close> of each of its
  \<^verbatim>\<open>Compression\<close> elements.
\<close>

record EncryptedData =
  Algorithm :: string
  URI :: string
  Compression :: "int list list"

record FileEntry =
  Path :: string
  IsCompressed :: bool
  EncryptionAlgorithm :: string

definition EncryptionAlgorithmAES256CBC :: string where
  "EncryptionAlgorithmAES256CBC = ''http://www.w3.org/2001/04/xmlenc#aes256-cbc''"

definition EncryptionAlgorithmFontObfuscation :: string where
  "EncryptionAlgorithmFontObfuscation = ''http://www.idpf.org/2008/embedding''"

text \<open>
  The source archive as \<^verbatim>\<open>zip.NewReader\<close> presents it: \<^verbatim>\<open>inFile.File\<close> in archive order and
  \<^verbatim>\<open>inFile.Comment\<close>. \<open>fopen\<close> is what \<^verbatim>\<open>f.Open()\<close> returns, \<open>fclose\<close> what closing that
  reader returns.
\<close>

record zip_file =
  Name :: string
  fopen :: "stream result"
  fclose :: "error option"

record zip_reader =
  File :: "zip_file list"
  Comment :: string

text \<open>
  The destination: the entries \<^verbatim>\<open>outZip\<close> holds in the order of their creation, its comment,
  and whether \<^verbatim>\<open>outZip.Close\<close> has written the central directory. Three ghost traces
  record what the run did to the source: the entries whose reader was opened, the
  entries handed to \<^verbatim>\<open>decryptFile\<close>, and the messages passed to the logger.
\<close>

datatype zip_method = Store | Deflate

record zip_entry =
  ename :: string
  emethod :: zip_method
  edata :: "byte list"

record world =
  out_entries :: "zip_entry list"
  out_comment :: string
  out_closed :: bool
  opened :: "string list"
  deciphered :: "string list"
  logged :: "string list"

definition NewWorld :: world where
  "NewWorld = \<lparr>out_entries = [], out_comment = [], out_closed = False,
               opened = [], deciphered = [], logged = []\<rparr>"

text \<open>The calls on the destination that can fail in the underlying writer.\<close>

datatype wop = OpCreateHeader string zip_method | OpWrite "byte list" | OpClose

text \<open>
  The Go standard library and the I/O layer are parameters of the model: every theorem
  holds for all of their behaviours. \<open>aes_Decrypt key block\<close> is \<^verbatim>\<open>Block.Decrypt\<close> of the
  cipher made from \<open>key\<close>; \<open>out_fail\<close> says which call on the destination fails, and how.
\<close>

record stdlib =
  hex_DecodeString :: "string \<Rightarrow> byte list result"
  base64_DecodeString :: "string \<Rightarrow> byte list result"
  json_Decode :: "stream \<Rightarrow> license result"
  xml_Decode :: "stream \<Rightarrow> EncryptedData list result"
  url_PathUnescape :: "string \<Rightarrow> string result"
  aes_Decrypt :: "byte list \<Rightarrow> byte list \<Rightarrow> byte list"
  flate_NewReader :: "byte list \<Rightarrow> stream"
  zip_Open :: "zip_reader \<Rightarrow> string \<Rightarrow> stream result"
  out_fail :: "world \<Rightarrow> wop \<Rightarrow> error option"

section \<open>Cipher strategies\<close>

text \<open>
  \<^verbatim>\<open>aes.NewCipher(key)\<close>: a key of 16, 24 or 32 bytes selects AES-128, AES-192 or AES-256;
  any other length is a \<^verbatim>\<open>KeySizeError\<close>. The cipher is represented by its key.
\<close>

definition aes_NewCipher :: "byte list \<Rightarrow> byte list result" where
  "aes_NewCipher key =
     (if length key = 16 \<or> length key = 24 \<or> length key = 32 then Ok key
      else Err (KeySizeError (length key)))"

text \<open>\<^verbatim>\<open>Block.Decrypt(dst, src)\<close> fills exactly one block (16 bytes) of \<open>dst\<close>.\<close>

definition block16 :: "byte list \<Rightarrow> byte list" where
  "block16 xs = take 16 (xs @ replicate 16 0)"

definition xorBytes :: "byte list \<Rightarrow> byte list \<Rightarrow> byte list" where
  "xorBytes xs ys = map2 (XOR) xs ys"

text \<open>
  \<^verbatim>\<open>cipher.NewCBCDecrypter(block, iv).CryptBlocks(res, cipherData)\<close> on whole blocks: each
  plaintext block is the decryption of its ciphertext block, xor the previous ciphertext
  block (the initialisation vector for the first).
\<close>

function CryptBlocks :: "(byte list \<Rightarrow> byte list) \<Rightarrow> byte list \<Rightarrow> byte list \<Rightarrow> byte list" where
  "CryptBlocks dec iv src =
     (if src = [] then []
      else xorBytes (block16 (dec (take 16 src))) iv
           @ CryptBlocks dec (take 16 src) (drop 16 src))"
  by pat_completeness auto
termination
  by (relation "measure (\<lambda>(dec, iv, src). length src)") auto

declare CryptBlocks.simps [simp del]

text \<open>
  \<^verbatim>\<open>decipherAES256CBC\<close>. The two slice expressions \<^verbatim>\<open>data[:aes.BlockSize]\<close> and
  \<^verbatim>\<open>data[aes.BlockSize:]\<close> come before the test for empty data: the second panics whenever
  \<^verbatim>\<open>len(data) < 16\<close> (the first already does when \<^verbatim>\<open>cap(data) < 16\<close>). \<^verbatim>\<open>CryptBlocks\<close> panics
  when its input is not a whole number of blocks, and \<^verbatim>\<open>res[len(res)-1]\<close> panics on an
  empty \<^verbatim>\<open>res\<close>.
\<close>

definition decipherAES256CBC :: "stdlib \<Rightarrow> byte list \<Rightarrow> byte list \<Rightarrow> byte list result" where
  "decipherAES256CBC lib data key =
     (case aes_NewCipher key of
        Err e \<Rightarrow> Err (Wrap ''error creating cipher'' e)
      | Panicked p \<Rightarrow> Panicked p
      | Ok block \<Rightarrow>
          if length data < 16 then Panicked SliceBoundsOutOfRange
          else
            let iv = take 16 data; cipherData = drop 16 data in
            if length data = 0 then Ok []
            else if length cipherData mod 16 \<noteq> 0 then Panicked InputNotFullBlocks
            else
              let res = CryptBlocks (aes_Decrypt lib block) iv cipherData in
              if length res = 0 then Panicked IndexOutOfRange
              else
                let paddingLen = unat (last res) in
                if paddingLen > length res then Err (InvalidPadding paddingLen (length res))
                else Ok (take (length res - paddingLen) res))"

definition decipherFontObfuscation :: "byte list \<Rightarrow> byte list \<Rightarrow> byte list result" where
  "decipherFontObfuscation data key = Ok data"

section \<open>License and key derivation\<close>

definition getContentKey :: "stdlib \<Rightarrow> stream \<Rightarrow> byte list \<Rightarrow> byte list result" where
  "getContentKey lib licenseFile userKey =
     or_wrap ''error decoding json'' (json_Decode lib licenseFile) (\<lambda>license.
     or_wrap ''error decoding key check''
       (base64_DecodeString lib (KeyCheck license)) (\<lambda>encryptedKeyCheck.
     or_wrap ''error decrypting key check''
       (decipherAES256CBC lib encryptedKeyCheck userKey) (\<lambda>keyCheck.
     if string_of_bytes keyCheck \<noteq> ID license
     then Err (KeyCheckMismatch keyCheck (ID license))
     else
     or_wrap ''error decoding content key''
       (base64_DecodeString lib (EncryptedValue license)) (\<lambda>encryptedContentKey.
     or_wrap ''error decrypting content key''
       (decipherAES256CBC lib encryptedContentKey userKey) (\<lambda>contentKey.
     Ok contentKey)))))"

section \<open>Encryption manifest\<close>

text \<open>The labelled \<^verbatim>\<open>PropertyLoop\<close>: some compression element has the code 8.\<close>

definition isCompressed_of :: "int list list \<Rightarrow> bool" where
  "isCompressed_of props = list_ex (\<lambda>p. list_ex (\<lambda>m. m = 8) p) props"

text \<open>
  The loop over \<^verbatim>\<open>encryption.EncryptedData\<close>, \<open>res\<close> being the entries appended so far. For
  each record the path is decoded first and the algorithm is looked at second; the first
  failure ends the loop.
\<close>

fun fileEntries :: "stdlib \<Rightarrow> EncryptedData list \<Rightarrow> FileEntry list \<Rightarrow> FileEntry list result" where
  "fileEntries lib [] res = Ok res"
| "fileEntries lib (d # ds) res =
     (case url_PathUnescape lib (URI d) of
        Err e \<Rightarrow> Err (DecodePath (URI d) e)
      | Panicked p \<Rightarrow> Panicked p
      | Ok path \<Rightarrow>
          if Algorithm d = EncryptionAlgorithmAES256CBC
             \<or> Algorithm d = EncryptionAlgorithmFontObfuscation
          then fileEntries lib ds
                 (res @ [\<lparr>Path = path, IsCompressed = isCompressed_of (Compression d),
                          EncryptionAlgorithm = Algorithm d\<rparr>])
          else Err (UnsupportedAlgorithm path (Algorithm d)))"

definition listEncryptedFiles :: "stdlib \<Rightarrow> zip_reader \<Rightarrow> FileEntry list result" where
  "listEncryptedFiles lib epubRoot =
     or_wrap ''error opening file'' (zip_Open lib epubRoot ''META-INF/encryption.xml'') (\<lambda>encFile.
     or_wrap ''error decoding file'' (xml_Decode lib encFile) (\<lambda>encryption.
     fileEntries lib encryption []))"

definition groupFileEntriesByPath :: "FileEntry list \<Rightarrow> (string \<rightharpoonup> FileEntry)" where
  "groupFileEntriesByPath strs = foldl (\<lambda>res s. res(Path s \<mapsto> s)) Map.empty strs"

section \<open>The destination archive\<close>

text \<open>\<^verbatim>\<open>outZip.SetComment\<close>: the comment must fit the 16-bit length field.\<close>

definition zip_SetComment :: "world \<Rightarrow> string \<Rightarrow> world result" where
  "zip_SetComment w c =
     (if length c > 65535 then Err CommentTooLong else Ok (w\<lparr>out_comment := c\<rparr>))"

text \<open>
  \<^verbatim>\<open>outZip.CreateHeader\<close> starts a new entry, which from then on receives the writes. An
  entry whose name ends in a slash is stored. \<^verbatim>\<open>outZip.Create(name)\<close> is \<^verbatim>\<open>CreateHeader\<close>
  with \<^verbatim>\<open>Deflate\<close>.
\<close>

definition zip_CreateHeader :: "stdlib \<Rightarrow> world \<Rightarrow> string \<Rightarrow> zip_method \<Rightarrow> unit result \<times> world" where
  "zip_CreateHeader lib w name m =
     (case out_fail lib w (OpCreateHeader name m) of
        Some e \<Rightarrow> (Err e, w)
      | None \<Rightarrow>
          (Ok (), w\<lparr>out_entries := out_entries w
                     @ [\<lparr>ename = name, emethod = (if is_dir name then Store else m),
                         edata = []\<rparr>]\<rparr>))"

definition zip_Create :: "stdlib \<Rightarrow> world \<Rightarrow> string \<Rightarrow> unit result \<times> world" where
  "zip_Create lib w name = zip_CreateHeader lib w name Deflate"

definition append_data :: "byte list \<Rightarrow> zip_entry list \<Rightarrow> zip_entry list" where
  "append_data p es =
     (if es = [] then [] else butlast es @ [(last es)\<lparr>edata := edata (last es) @ p\<rparr>])"

text \<open>A write to the writer of the entry created last.\<close>

definition zip_Write :: "stdlib \<Rightarrow> world \<Rightarrow> byte list \<Rightarrow> unit result \<times> world" where
  "zip_Write lib w p =
     (case out_fail lib w (OpWrite p) of
        Some e \<Rightarrow> (Err e, w)
      | None \<Rightarrow> (Ok (), w\<lparr>out_entries := append_data p (out_entries w)\<rparr>))"

definition zip_Close :: "stdlib \<Rightarrow> world \<Rightarrow> unit result \<times> world" where
  "zip_Close lib w =
     (case out_fail lib w OpClose of
        Some e \<Rightarrow> (Err e, w)
      | None \<Rightarrow> (Ok (), w\<lparr>out_closed := True\<rparr>))"

text \<open>\<^verbatim>\<open>io.ReadAll(src)\<close>; the caller drops the bytes read when there is an error.\<close>

definition io_ReadAll :: "stream \<Rightarrow> byte list result" where
  "io_ReadAll src = (case serror src of None \<Rightarrow> Ok (sbytes src) | Some e \<Rightarrow> Err e)"

text \<open>
  \<^verbatim>\<open>io.Copy(dst, src)\<close> into the current entry: the bytes \<open>src\<close> delivers are written (no
  write at all when there are none), and a read error of \<open>src\<close> is returned after them.
\<close>

definition io_Copy :: "stdlib \<Rightarrow> world \<Rightarrow> stream \<Rightarrow> unit result \<times> world" where
  "io_Copy lib w src =
     (case (if sbytes src = [] then (Ok (), w) else zip_Write lib w (sbytes src)) of
        (Ok u, w') \<Rightarrow> (case serror src of None \<Rightarrow> (Ok (), w') | Some e \<Rightarrow> (Err e, w'))
      | (Err e, w') \<Rightarrow> (Err e, w')
      | (Panicked p, w') \<Rightarrow> (Panicked p, w'))"

section \<open>The archive transcoder\<close>

definition decryptFile ::
  "stdlib \<Rightarrow> world \<Rightarrow> stream \<Rightarrow> byte list \<Rightarrow> string \<Rightarrow> bool \<Rightarrow> unit result \<times> world" where
  "decryptFile lib w src contentKey encryptionAlgorithm isCompressed =
     (case io_ReadAll src of
        Err e \<Rightarrow> (Err (Wrap ''error reading data'' e), w)
      | Panicked p \<Rightarrow> (Panicked p, w)
      | Ok encryptedData \<Rightarrow>
          if encryptionAlgorithm \<noteq> EncryptionAlgorithmAES256CBC
             \<and> encryptionAlgorithm \<noteq> EncryptionAlgorithmFontObfuscation
          then (Err (InvalidAlgorithm encryptionAlgorithm), w)
          else
            (case (if encryptionAlgorithm = EncryptionAlgorithmAES256CBC
                   then decipherAES256CBC lib encryptedData contentKey
                   else decipherFontObfuscation encryptedData contentKey) of
               Err e \<Rightarrow> (Err (Wrap ''error decrypting data'' e), w)
             | Panicked p \<Rightarrow> (Panicked p, w)
             | Ok data \<Rightarrow>
                 let cleartextReader =
                       (if isCompressed then flate_NewReader lib data
                        else \<lparr>sbytes = data, serror = None\<rparr>)
                 in (case io_Copy lib w cleartextReader of
                       (Err e, w') \<Rightarrow> (Err (Wrap ''error writing data'' e), w')
                     | (Panicked p, w') \<Rightarrow> (Panicked p, w')
                     | (Ok u, w') \<Rightarrow> (Ok (), w'))))"

text \<open>The three names the loop of \<^verbatim>\<open>Decrypt\<close> passes over.\<close>

definition skipped :: "string \<Rightarrow> bool" where
  "skipped name =
     (name = ''META-INF/encryption.xml'' \<or> name = ''META-INF/license.lcpl''
      \<or> name = ''mimetype'')"

text \<open>One iteration of the loop over \<^verbatim>\<open>inFile.File\<close>, for an entry that is not passed over.\<close>

definition copyEntry ::
  "stdlib \<Rightarrow> byte list \<Rightarrow> (string \<rightharpoonup> FileEntry) \<Rightarrow> zip_file \<Rightarrow> world \<Rightarrow> unit result \<times> world" where
  "copyEntry lib contentKey encryptedFilesSet f w =
     (case zip_Create lib (w\<lparr>logged := logged w @ [''Processing file '' @ Name f @ ''...'']\<rparr>)
             (Name f) of
        (Err e, w1) \<Rightarrow>
          (Err (Wrap (''error appending file '' @ Name f @ '' to output zip file'') e), w1)
      | (Panicked p, w1) \<Rightarrow> (Panicked p, w1)
      | (Ok u, w1) \<Rightarrow>
          if is_dir (Name f) then (Ok (), w1)
          else
            (case fopen f of
               Err e \<Rightarrow>
                 (Err (Wrap (''error opening file '' @ Name f @ '' from input zip file'') e), w1)
             | Panicked p \<Rightarrow> (Panicked p, w1)
             | Ok srcFile \<Rightarrow>
                 let w2 = w1\<lparr>opened := opened w1 @ [Name f]\<rparr> in
                 (case (case encryptedFilesSet (Name f) of
                          Some fileEntry \<Rightarrow>
                            decryptFile lib (w2\<lparr>deciphered := deciphered w2 @ [Name f]\<rparr>) srcFile
                              contentKey (EncryptionAlgorithm fileEntry) (IsCompressed fileEntry)
                        | None \<Rightarrow> io_Copy lib w2 srcFile) of
                    (Err e, w3) \<Rightarrow>
                      (Err (Wrap (''error copying data for file '' @ Name f
                                  @ '' to output zip file'') e), w3)
                  | (Panicked p, w3) \<Rightarrow> (Panicked p, w3)
                  | (Ok u, w3) \<Rightarrow>
                      (case fclose f of
                         Some e \<Rightarrow>
                           (Err (Wrap (''error closing file '' @ Name f
                                       @ '' from input zip file'') e), w3)
                       | None \<Rightarrow> (Ok (), w3)))))"

fun copyEntries ::
  "stdlib \<Rightarrow> byte list \<Rightarrow> (string \<rightharpoonup> FileEntry) \<Rightarrow> zip_file list \<Rightarrow> world
     \<Rightarrow> unit result \<times> world" where
  "copyEntries lib contentKey encryptedFilesSet [] w = (Ok (), w)"
| "copyEntries lib contentKey encryptedFilesSet (f # fs) w =
     (if skipped (Name f) then copyEntries lib contentKey encryptedFilesSet fs w
      else
        (case copyEntry lib contentKey encryptedFilesSet f w of
           (Ok u, w') \<Rightarrow> copyEntries lib contentKey encryptedFilesSet fs w'
         | (Err e, w') \<Rightarrow> (Err e, w')
         | (Panicked p, w') \<Rightarrow> (Panicked p, w')))"

text \<open>
  \<^verbatim>\<open>Decrypt\<close> up to the creation of the destination writer: nothing is written and no entry
  is opened before the user key, the archive, the content key and the manifest are there.
  \<open>inArchive\<close> is what \<^verbatim>\<open>zip.NewReader(in, inSize)\<close> returns; \<open>licenseFile\<close> is the optional
  separate license document.
\<close>

definition Decrypt_read ::
  "stdlib \<Rightarrow> zip_reader result \<Rightarrow> string \<Rightarrow> stream option
     \<Rightarrow> (zip_reader \<times> byte list \<times> FileEntry list) result" where
  "Decrypt_read lib inArchive userKeyHex licenseFile =
     (if userKeyHex = [] then Err (Errorf ''user key not specified'')
      else
      or_wrap ''error decoding user key'' (hex_DecodeString lib userKeyHex) (\<lambda>userKey.
      or_wrap ''error opening input file'' inArchive (\<lambda>inFile.
      or_wrap ''error opening license file''
        (case licenseFile of
           None \<Rightarrow> zip_Open lib inFile ''META-INF/license.lcpl''
         | Some l \<Rightarrow> Ok l) (\<lambda>licenseFile'.
      or_wrap ''error getting content key'' (getContentKey lib licenseFile' userKey) (\<lambda>contentKey.
      or_wrap ''error listing encrypted files'' (listEncryptedFiles lib inFile) (\<lambda>encryptedFiles.
      Ok (inFile, contentKey, encryptedFiles)))))))"

definition mimetype_content :: "byte list" where
  "mimetype_content = bytes_of_string ''application/epub+zip''"

text \<open>
  \<^verbatim>\<open>Decrypt\<close>. The error of \<^verbatim>\<open>outZip.CreateHeader\<close> for the mimetype entry is assigned and never
  read; when the call fails, \<^verbatim>\<open>mimetypeFile\<close> is a nil \<^verbatim>\<open>io.Writer\<close> and \<^verbatim>\<open>io.WriteString\<close> calls
  \<^verbatim>\<open>Write\<close> on it.
\<close>

definition Decrypt ::
  "stdlib \<Rightarrow> zip_reader result \<Rightarrow> string \<Rightarrow> stream option \<Rightarrow> unit result \<times> world" where
  "Decrypt lib inArchive userKeyHex licenseFile =
     (case Decrypt_read lib inArchive userKeyHex licenseFile of
        Err e \<Rightarrow> (Err e, NewWorld)
      | Panicked p \<Rightarrow> (Panicked p, NewWorld)
      | Ok (inFile, contentKey, encryptedFiles) \<Rightarrow>
          (case zip_SetComment NewWorld (Comment inFile) of
             Err e \<Rightarrow> (Err (Wrap ''error setting output file comment'' e), NewWorld)
           | Panicked p \<Rightarrow> (Panicked p, NewWorld)
           | Ok w1 \<Rightarrow>
               let encryptedFilesSet = groupFileEntriesByPath encryptedFiles in
               (case zip_CreateHeader lib w1 ''mimetype'' Store of
                  (Err e, w2) \<Rightarrow> (Panicked NilDereference, w2)
                | (Panicked p, w2) \<Rightarrow> (Panicked p, w2)
                | (Ok u, w2) \<Rightarrow>
                    (case zip_Write lib w2 mimetype_content of
                       (Err e, w3) \<Rightarrow>
                         (Err (Wrap ''error appending mimetype file to output zip file'' e), w3)
                     | (Panicked p, w3) \<Rightarrow> (Panicked p, w3)
                     | (Ok u, w3) \<Rightarrow>
                         (case copyEntries lib contentKey encryptedFilesSet (File inFile) w3 of
                            (Err e, w4) \<Rightarrow> (Err e, w4)
                          | (Panicked p, w4) \<Rightarrow> (Panicked p, w4)
                          | (Ok u, w4) \<Rightarrow>
                              (case zip_Close lib w4 of
                                 (Err e, w5) \<Rightarrow>
                                   (Err (Wrap ''error finalizing output zip file'' e), w5)
                               | (Panicked p, w5) \<Rightarrow> (Panicked p, w5)
                               | (Ok u, w5) \<Rightarrow>
                                   (Ok (), w5\<lparr>logged := logged w5 @ [''Decrypted ePUB'']\<rparr>)))))))"

section \<open>A concrete environment\<close>

text \<open>
  Two functions of the standard library written out, \<^verbatim>\<open>hex.DecodeString\<close> and
  \<^verbatim>\<open>url.PathUnescape\<close>, and an environment built on them, at which the theorems are
  evaluated on concrete inputs.
\<close>

definition unhex :: "char \<Rightarrow> nat option" where
  "unhex c =
     (let n = (of_char c :: nat) in
      if 48 \<le> n \<and> n \<le> 57 then Some (n - 48)
      else if 97 \<le> n \<and> n \<le> 102 then Some (n - 87)
      else if 65 \<le> n \<and> n \<le> 70 then Some (n - 55)
      else None)"

fun hex_Decode :: "string \<Rightarrow> byte list result" where
  "hex_Decode [] = Ok []"
| "hex_Decode [p] = (case unhex p of None \<Rightarrow> Err (InvalidByteError p) | Some a \<Rightarrow> Err ErrLength)"
| "hex_Decode (p # q # s) =
     (case unhex p of
        None \<Rightarrow> Err (InvalidByteError p)
      | Some a \<Rightarrow>
          (case unhex q of
             None \<Rightarrow> Err (InvalidByteError q)
           | Some b \<Rightarrow>
               (case hex_Decode s of
                  Ok bs \<Rightarrow> Ok (of_nat (a * 16 + b) # bs)
                | Err e \<Rightarrow> Err e
                | Panicked x \<Rightarrow> Panicked x)))"

text \<open>
  \<^verbatim>\<open>url.PathUnescape\<close>: a percent sign must be followed by two hexadecimal digits, else the
  call fails with the (at most three) characters at the percent sign; a plus sign stays.
\<close>

fun PathUnescape :: "string \<Rightarrow> string result" where
  "PathUnescape [] = Ok []"
| "PathUnescape (c # s) =
     (if c = CHR ''%'' then
        (case s of
           a # b # rest \<Rightarrow>
             (case (unhex a, unhex b) of
                (Some x, Some y) \<Rightarrow>
                  (case PathUnescape rest of
                     Ok t \<Rightarrow> Ok (char_of (x * 16 + y) # t)
                   | Err e \<Rightarrow> Err e
                   | Panicked p \<Rightarrow> Panicked p)
              | _ \<Rightarrow> Err (EscapeError (take 3 (c # s))))
         | _ \<Rightarrow> Err (EscapeError (take 3 (c # s))))
      else
        (case PathUnescape s of
           Ok t \<Rightarrow> Ok (c # t)
         | Err e \<Rightarrow> Err e
         | Panicked p \<Rightarrow> Panicked p))"

text \<open>
  The example environment decodes any license document to \<open>lic\<close> and any manifest to
  \<open>manifest\<close>; its base64 and DEFLATE codecs and its block cipher are the identity, and no
  call on the destination fails.
\<close>

definition example_lib :: "license \<Rightarrow> EncryptedData list \<Rightarrow> stdlib" where
  "example_lib lic manifest =
     \<lparr>hex_DecodeString = hex_Decode,
      base64_DecodeString = (\<lambda>s. Ok (bytes_of_string s)),
      json_Decode = (\<lambda>f. Ok lic),
      xml_Decode = (\<lambda>f. Ok manifest),
      url_PathUnescape = PathUnescape,
      aes_Decrypt = (\<lambda>key block. block),
      flate_NewReader = (\<lambda>data. \<lparr>sbytes = data, serror = None\<rparr>),
      zip_Open = (\<lambda>r name. Ok \<lparr>sbytes = [], serror = None\<rparr>),
      out_fail = (\<lambda>w op. None)\<rparr>"

text \<open>
  A license whose key check decrypts to its id \<^verbatim>\<open>book-42\<close>, and one whose key check
  decrypts to something else. Under the identity cipher and a zero initialisation vector
  the first ciphertext block is the padded plaintext.
\<close>

definition example_license :: license where
  "example_license =
     \<lparr>ID = ''book-42'',
      EncryptedValue = replicate 16 (CHR 0x00) @ replicate 16 (CHR ''K'')
                       @ replicate 16 (CHR 0x00) @ replicate 16 (CHR 0x10),
      KeyCheck = replicate 16 (CHR 0x00) @ ''book-42'' @ replicate 9 (CHR 0x09)\<rparr>"

definition wrong_license :: license where
  "wrong_license = example_license\<lparr>ID := ''book-43''\<rparr>"

definition example_manifest :: "EncryptedData list" where
  "example_manifest =
     [\<lparr>Algorithm = EncryptionAlgorithmAES256CBC, URI = ''OEBPS/ch%31.xhtml'',
       Compression = [[8]]\<rparr>]"

definition bad_manifest :: "EncryptedData list" where
  "bad_manifest =
     example_manifest @ [\<lparr>Algorithm = ''urn:example:rot13'', URI = ''OEBPS/ch2.xhtml'',
                          Compression = []\<rparr>]"

definition bad_uri_manifest :: "EncryptedData list" where
  "bad_uri_manifest = [\<lparr>Algorithm = ''urn:example:rot13'', URI = ''%zz'', Compression = []\<rparr>]"

text \<open>
  A manifest whose first record has a supported algorithm and a URI that does not decode,
  before a record of unsupported algorithm.
\<close>

definition early_bad_uri_manifest :: "EncryptedData list" where
  "early_bad_uri_manifest =
     [\<lparr>Algorithm = EncryptionAlgorithmAES256CBC, URI = ''OEBPS/ch%3'', Compression = []\<rparr>,
      \<lparr>Algorithm = ''urn:example:rot13'', URI = ''OEBPS/ch2.xhtml'', Compression = []\<rparr>]"

definition plain :: "string \<Rightarrow> stream result" where
  "plain s = Ok \<lparr>sbytes = bytes_of_string s, serror = None\<rparr>"

definition example_archive :: zip_reader where
  "example_archive =
     \<lparr>File =
        [\<lparr>Name = ''mimetype'', fopen = plain ''application/epub+zip'', fclose = None\<rparr>,
         \<lparr>Name = ''META-INF/encryption.xml'', fopen = plain ''<encryption/>'', fclose = None\<rparr>,
         \<lparr>Name = ''OEBPS/'', fopen = plain [], fclose = None\<rparr>,
         \<lparr>Name = ''OEBPS/ch1.xhtml'',
          fopen = plain (replicate 16 (CHR 0x00) @ ''<html/>'' @ replicate 9 (CHR 0x09)),
          fclose = None\<rparr>,
         \<lparr>Name = ''META-INF/license.lcpl'', fopen = plain ''{}'', fclose = None\<rparr>,
         \<lparr>Name = ''OEBPS/cover.png'', fopen = plain ''PNG'', fclose = None\<rparr>],
      Comment = ''demo''\<rparr>"

definition example_key_hex :: string where
  "example_key_hex = replicate 64 (CHR ''0'')"

text \<open>
  User keys of 16 and of 24 bytes, and for any block cipher and key a blob of two blocks
  whose plaintext block is sixteen bytes of padding: the initialisation vector is the
  decryption of the zero block, xor sixteen bytes of value 16.
\<close>

definition short_key :: "byte list" where
  "short_key = replicate 16 0"

definition key_24 :: "byte list" where
  "key_24 = replicate 24 0"

definition padding_only_blob :: "stdlib \<Rightarrow> byte list \<Rightarrow> byte list" where
  "padding_only_blob lib key =
     xorBytes (block16 (aes_Decrypt lib key (replicate 16 0))) (replicate 16 16)
     @ replicate 16 0"

text \<open>
  The environment \<open>lib\<close> with another error value returned by the header creation of the
  mimetype entry, wherever that call fails.
\<close>

definition with_header_error :: "error \<Rightarrow> stdlib \<Rightarrow> stdlib" where
  "with_header_error e' lib =
     lib\<lparr>out_fail := (\<lambda>w op.
            if op = OpCreateHeader ''mimetype'' Store \<and> out_fail lib w op \<noteq> None
            then Some e' else out_fail lib w op)\<rparr>"

definition failing_header_lib :: stdlib where
  "failing_header_lib =
     (example_lib example_license example_manifest)
       \<lparr>out_fail := (\<lambda>w op. if op = OpCreateHeader ''mimetype'' Store
                             then Some (LibError ''write failed'') else None)\<rparr>"

text \<open>
  What a successful iteration of the loop leaves in the destination for the source entry
  \<open>f\<close>: an entry \<open>e\<close> of the same name, without data when \<open>f\<close> is a directory marker, and
  with the bytes of \<open>f\<close> when \<open>f\<close> is a file that the lookup table \<open>m\<close> does not list.
\<close>

definition copied :: "(string \<rightharpoonup> FileEntry) \<Rightarrow> zip_file \<Rightarrow> zip_entry \<Rightarrow> bool" where
  "copied m f e =
     (ename e = Name f
      \<and> (is_dir (Name f) \<longrightarrow> edata e = [])
      \<and> (\<not> is_dir (Name f) \<and> m (Name f) = None
           \<longrightarrow> (\<exists>s. fopen f = Ok s \<and> serror s = None \<and> edata e = sbytes s)))"

text \<open>The run of the example: the archive, the license and the manifest above.\<close>

definition example_run :: "unit result \<times> world" where
  "example_run =
     Decrypt (example_lib example_license example_manifest) (Ok example_archive)
       example_key_hex None"

section \<open>Properties of the cipher strategies\<close>

lemma length_block16: "length (block16 xs) = 16"
  by (simp add: block16_def)

lemma length_xorBytes: "length (xorBytes xs ys) = min (length xs) (length ys)"
  by (simp add: xorBytes_def)

lemma xorBytes_cancel: "length xs = length ps \<Longrightarrow> xorBytes xs (xorBytes xs ps) = ps"
  unfolding xorBytes_def
  by (induction xs ps rule: list_induct2) (simp_all flip: xor.assoc)

lemma CryptBlocks_Nil: "CryptBlocks dec iv [] = []"
  by (simp add: CryptBlocks.simps)

text \<open>\<^verbatim>\<open>CryptBlocks\<close> fills \<^verbatim>\<open>res\<close>, which was made as long as \<^verbatim>\<open>cipherData\<close>.\<close>

lemma length_CryptBlocks:
  "length iv = 16 \<Longrightarrow> length src mod 16 = 0 \<Longrightarrow> length (CryptBlocks dec iv src) = length src"
proof (induction dec iv src rule: CryptBlocks.induct)
  case (1 dec iv src)
  show ?case
  proof (cases "src = []")
    case True
    then show ?thesis by (simp add: CryptBlocks.simps)
  next
    case False
    with "1.prems" have ge: "16 \<le> length src"
      by (cases "length src < 16") auto
    have l16: "length (take 16 src) = 16" using ge by simp
    have m: "length (drop 16 src) mod 16 = 0"
      using "1.prems"(2) ge le_mod_geq [of 16 "length src"] by simp
    have ih: "length (CryptBlocks dec (take 16 src) (drop 16 src)) = length (drop 16 src)"
      using "1.IH" [OF False l16 m] .
    show ?thesis
      using False ge "1.prems"(1) ih
      by (subst CryptBlocks.simps) (simp add: length_xorBytes length_block16)
  qed
qed

lemma or_wrap_Ok_iff:
  "or_wrap ctx r rest = Ok y \<longleftrightarrow> (\<exists>x. r = Ok x \<and> rest x = Ok y)"
  by (cases r) (simp_all add: or_wrap_def)

text \<open>
  Claim C1. With a key the cipher constructor accepts, \<^verbatim>\<open>decipherAES256CBC\<close> does exactly
  this: it panics on less than one block (the slice expressions), on input that is not a
  whole number of blocks (\<^verbatim>\<open>CryptBlocks\<close>) and on exactly one block (the read of
  \<^verbatim>\<open>res[len(res)-1]\<close> in an empty \<^verbatim>\<open>res\<close>); on two blocks or more it returns the
  invalid-padding error when the last plaintext byte exceeds the plaintext length, and the
  plaintext without its padding otherwise. The first half of the claim holds, the second
  (no crash on any input) does not.
\<close>

theorem decipherAES256CBC_behaviour:
  "length key = 16 \<or> length key = 24 \<or> length key = 32 \<Longrightarrow>
   decipherAES256CBC lib data key =
     (if length data < 16 then Panicked SliceBoundsOutOfRange
      else if length data mod 16 \<noteq> 0 then Panicked InputNotFullBlocks
      else if length data = 16 then Panicked IndexOutOfRange
      else let res = CryptBlocks (aes_Decrypt lib key) (take 16 data) (drop 16 data) in
           if unat (last res) > length data - 16
           then Err (InvalidPadding (unat (last res)) (length data - 16))
           else Ok (take (length data - 16 - unat (last res)) res))"
proof -
  assume k: "length key = 16 \<or> length key = 24 \<or> length key = 32"
  have nc: "aes_NewCipher key = Ok key" using k by (auto simp: aes_NewCipher_def)
  show ?thesis
  proof (cases "length data < 16")
    case True
    then show ?thesis by (simp add: decipherAES256CBC_def nc)
  next
    case False
    then have ge: "16 \<le> length data" by simp
    then have ne: "data \<noteq> []" by auto
    show ?thesis
    proof (cases "length data mod 16 = 0")
      case nz: False
      have "(length data - 16) mod 16 \<noteq> 0"
        using nz ge le_mod_geq [of 16 "length data"] by simp
      then show ?thesis using False nz ne by (simp add: decipherAES256CBC_def nc Let_def)
    next
      case z: True
      have m: "length (drop 16 data) mod 16 = 0"
        using z ge le_mod_geq [of 16 "length data"] by simp
      have l: "length (CryptBlocks (aes_Decrypt lib key) (take 16 data) (drop 16 data))
                 = length data - 16"
        using length_CryptBlocks [of "take 16 data" "drop 16 data"] ge m by simp
      show ?thesis using False z ge l m ne
        by (auto simp add: decipherAES256CBC_def nc Let_def)
    qed
  qed
qed

theorem decipherAES256CBC_behaviour_witness:
  "(\<forall>lib. decipherAES256CBC lib (replicate 16 0) (replicate 32 0) = Panicked IndexOutOfRange)
   \<and> (\<forall>lib. decipherAES256CBC lib (replicate 7 0) (replicate 32 0)
               = Panicked SliceBoundsOutOfRange)
   \<and> (\<forall>lib. decipherAES256CBC lib (replicate 40 0) (replicate 32 0)
               = Panicked InputNotFullBlocks)
   \<and> decipherAES256CBC (example_lib example_license example_manifest)
         (replicate 16 0 @ replicate 16 255) (replicate 32 0)
       = Err (InvalidPadding 255 16)
   \<and> decipherAES256CBC (example_lib example_license example_manifest)
         (replicate 16 0 @ replicate 14 65 @ [2, 2]) (replicate 32 0)
       = Ok (replicate 14 65)"
proof (intro conjI allI)
  fix lib :: stdlib
  show "decipherAES256CBC lib (replicate 16 0) (replicate 32 0) = Panicked IndexOutOfRange"
    using decipherAES256CBC_behaviour [of "replicate 32 0" lib "replicate 16 0"] by simp
  show "decipherAES256CBC lib (replicate 7 0) (replicate 32 0) = Panicked SliceBoundsOutOfRange"
    using decipherAES256CBC_behaviour [of "replicate 32 0" lib "replicate 7 0"] by simp
  show "decipherAES256CBC lib (replicate 40 0) (replicate 32 0) = Panicked InputNotFullBlocks"
    using decipherAES256CBC_behaviour [of "replicate 32 0" lib "replicate 40 0"] by simp
next
  let ?L = "example_lib example_license example_manifest"
  have k: "length (replicate 32 (0::byte)) = 16 \<or> length (replicate 32 (0::byte)) = 24
           \<or> length (replicate 32 (0::byte)) = 32"
    by simp
  have r1: "CryptBlocks (aes_Decrypt ?L (replicate 32 0)) (take 16 (replicate 16 0 @ replicate 16 255))
             (drop 16 (replicate 16 0 @ replicate 16 255)) = replicate 16 255"
    by code_simp
  show "decipherAES256CBC ?L (replicate 16 0 @ replicate 16 255) (replicate 32 0)
          = Err (InvalidPadding 255 16)"
    unfolding decipherAES256CBC_behaviour [OF k] r1 by simp
  have r2: "CryptBlocks (aes_Decrypt ?L (replicate 32 0))
             (take 16 (replicate 16 0 @ replicate 14 65 @ [2, 2]))
             (drop 16 (replicate 16 0 @ replicate 14 65 @ [2, 2])) = replicate 14 65 @ [2, 2]"
    by code_simp
  show "decipherAES256CBC ?L (replicate 16 0 @ replicate 14 65 @ [2, 2]) (replicate 32 0)
          = Ok (replicate 14 65)"
    unfolding decipherAES256CBC_behaviour [OF k] r2 by simp
qed

text \<open>
  Claim C2. On an empty blob \<^verbatim>\<open>decipherAES256CBC\<close> does not return an empty result: with any
  key the cipher constructor accepts it panics in the slice expressions, which come before
  the test \<^verbatim>\<open>len(data) == 0\<close>.
\<close>

theorem decipherAES256CBC_empty_panics:
  "aes_NewCipher key = Ok block \<Longrightarrow>
   decipherAES256CBC lib [] key = Panicked SliceBoundsOutOfRange"
  by (simp add: decipherAES256CBC_def)

theorem decipherAES256CBC_empty_panics_witness:
  "\<forall>lib. decipherAES256CBC lib [] (replicate 32 0) = Panicked SliceBoundsOutOfRange"
proof
  fix lib :: stdlib
  have "aes_NewCipher (replicate 32 0) = Ok (replicate 32 0)"
    by (simp add: aes_NewCipher_def)
  then show "decipherAES256CBC lib [] (replicate 32 0) = Panicked SliceBoundsOutOfRange"
    by (rule decipherAES256CBC_empty_panics)
qed

text \<open>
  Claim C8. \<^verbatim>\<open>decipherFontObfuscation\<close> is the identity on its data argument: for every byte
  sequence and every key it returns the input unchanged and no error.
\<close>

theorem decipherFontObfuscation_identity: "decipherFontObfuscation data key = Ok data"
  by (simp add: decipherFontObfuscation_def)

lemma padding_only_blob_deciphers:
  assumes "aes_NewCipher key = Ok key"
  shows "decipherAES256CBC lib (padding_only_blob lib key) key = Ok []"
proof -
  let ?B = "block16 (aes_Decrypt lib key (replicate 16 0))"
  let ?iv = "xorBytes ?B (replicate 16 16)"
  have liv: "length ?iv = 16" by (simp add: length_xorBytes length_block16)
  have t: "take 16 (padding_only_blob lib key) = ?iv"
    using liv by (simp add: padding_only_blob_def)
  have dr: "drop 16 (padding_only_blob lib key) = replicate 16 0"
    using liv by (simp add: padding_only_blob_def)
  have len: "length (padding_only_blob lib key) = 32"
    using liv by (simp add: padding_only_blob_def)
  have cb: "CryptBlocks (aes_Decrypt lib key) ?iv (replicate 16 0) = replicate 16 16"
    by (subst CryptBlocks.simps)
       (simp add: CryptBlocks_Nil xorBytes_cancel length_block16)
  show ?thesis
    using len by (simp add: decipherAES256CBC_def assms t dr cb Let_def)
qed

text \<open>
  Claim C9, as stated: a user key whose length differs from 32 makes the decipher operation
  return an error. It does not: the cipher constructor also accepts 16 and 24 bytes. For
  every block cipher, the key \<open>short_key\<close> of 16 bytes and the key \<open>key_24\<close> of 24 bytes each
  decipher their two-block blob \<open>padding_only_blob\<close> to the empty plaintext without error.
\<close>

theorem decipherAES256CBC_accepts_16_byte_key:
  "\<forall>lib. length short_key \<noteq> 32
         \<and> decipherAES256CBC lib (padding_only_blob lib short_key) short_key = Ok []
         \<and> length key_24 \<noteq> 32
         \<and> decipherAES256CBC lib (padding_only_blob lib key_24) key_24 = Ok []"
proof (intro allI conjI)
  fix lib :: stdlib
  show "length short_key \<noteq> 32" by (simp add: short_key_def)
  show "length key_24 \<noteq> 32" by (simp add: key_24_def)
  have "aes_NewCipher short_key = Ok short_key"
    by (simp add: aes_NewCipher_def short_key_def)
  then show "decipherAES256CBC lib (padding_only_blob lib short_key) short_key = Ok []"
    by (rule padding_only_blob_deciphers)
  have "aes_NewCipher key_24 = Ok key_24"
    by (simp add: aes_NewCipher_def key_24_def)
  then show "decipherAES256CBC lib (padding_only_blob lib key_24) key_24 = Ok []"
    by (rule padding_only_blob_deciphers)
qed

text \<open>
  Claim C9, amended: a user key whose length is none of 16, 24 and 32 bytes makes the
  decipher operation return the key-size error, whatever the data. The key derivation
  \<^verbatim>\<open>getContentKey\<close> then yields no content key, and once the license document and its key
  check have decoded it fails with that key-size error.
\<close>

theorem decipherAES256CBC_rejects_other_key_sizes:
  "length key \<noteq> 16 \<Longrightarrow> length key \<noteq> 24 \<Longrightarrow> length key \<noteq> 32 \<Longrightarrow>
   decipherAES256CBC lib data key
     = Err (Wrap ''error creating cipher'' (KeySizeError (length key)))
   \<and> (\<forall>contentKey. getContentKey lib licenseFile key \<noteq> Ok contentKey)
   \<and> (\<forall>license encryptedKeyCheck.
         json_Decode lib licenseFile = Ok license
         \<and> base64_DecodeString lib (KeyCheck license) = Ok encryptedKeyCheck
         \<longrightarrow> getContentKey lib licenseFile key
               = Err (Wrap ''error decrypting key check''
                       (Wrap ''error creating cipher'' (KeySizeError (length key)))))"
proof -
  assume k: "length key \<noteq> 16" "length key \<noteq> 24" "length key \<noteq> 32"
  have d: "decipherAES256CBC lib data' key
             = Err (Wrap ''error creating cipher'' (KeySizeError (length key)))" for data'
    using k by (simp add: decipherAES256CBC_def aes_NewCipher_def)
  have n: "getContentKey lib licenseFile key \<noteq> Ok contentKey" for contentKey
    by (auto simp add: getContentKey_def or_wrap_Ok_iff d)
  have g: "getContentKey lib licenseFile key
             = Err (Wrap ''error decrypting key check''
                     (Wrap ''error creating cipher'' (KeySizeError (length key))))"
    if "json_Decode lib licenseFile = Ok license"
       "base64_DecodeString lib (KeyCheck license) = Ok encryptedKeyCheck"
    for license encryptedKeyCheck
    using that by (simp add: getContentKey_def or_wrap_def d)
  show ?thesis
  proof (intro conjI)
    show "decipherAES256CBC lib data key
            = Err (Wrap ''error creating cipher'' (KeySizeError (length key)))"
      by (rule d)
    show "\<forall>contentKey. getContentKey lib licenseFile key \<noteq> Ok contentKey"
      using n by (rule allI)
    show "\<forall>license encryptedKeyCheck.
         json_Decode lib licenseFile = Ok license
         \<and> base64_DecodeString lib (KeyCheck license) = Ok encryptedKeyCheck
         \<longrightarrow> getContentKey lib licenseFile key
               = Err (Wrap ''error decrypting key check''
                       (Wrap ''error creating cipher'' (KeySizeError (length key))))"
      using g by (intro allI impI) (elim conjE)
  qed
qed

theorem decipherAES256CBC_rejects_other_key_sizes_witness:
  "(\<forall>lib. decipherAES256CBC lib (replicate 32 0) (replicate 31 0)
           = Err (Wrap ''error creating cipher'' (KeySizeError 31)))
   \<and> getContentKey (example_lib example_license example_manifest)
        \<lparr>sbytes = [], serror = None\<rparr> (replicate 31 0)
      = Err (Wrap ''error decrypting key check''
              (Wrap ''error creating cipher'' (KeySizeError 31)))"
proof -
  let ?L = "example_lib example_license example_manifest"
  let ?f = "\<lparr>sbytes = [], serror = None\<rparr>"
  note T = decipherAES256CBC_rejects_other_key_sizes [of "replicate 31 0"]
  have a: "decipherAES256CBC lib (replicate 32 0) (replicate 31 0)
           = Err (Wrap ''error creating cipher'' (KeySizeError 31))" for lib
    using T [of lib "replicate 32 0"] by simp
  have j: "json_Decode ?L ?f = Ok example_license" by (simp add: example_lib_def)
  have b64: "base64_DecodeString ?L (KeyCheck example_license)
               = Ok (bytes_of_string (KeyCheck example_license))"
    by (simp add: example_lib_def)
  have b: "getContentKey ?L ?f (replicate 31 0)
      = Err (Wrap ''error decrypting key check''
              (Wrap ''error creating cipher'' (KeySizeError 31)))"
    using T [of ?L "[]" ?f, THEN conjunct2, THEN conjunct2, rule_format,
             of example_license "bytes_of_string (KeyCheck example_license)"] j b64
    by simp
  from a b show ?thesis by simp
qed


section \<open>Properties of the key derivation\<close>

lemma byte_of_char_of: "(of_char (char_of (unat (b :: byte))) :: byte) = b"
proof -
  have "(of_char (char_of (unat b)) :: byte) = of_nat (of_char (char_of (unat b)))"
    by (simp only: of_nat_of_char)
  also have "\<dots> = of_nat (unat b mod 256)"
    by (simp only: of_char_of)
  also have "\<dots> = b"
    using unsigned_less [of b, where ?'a = nat] by simp
  finally show ?thesis .
qed

lemma char_of_byte_of: "char_of (unat (of_char c :: byte)) = c"
proof -
  have "unat (of_char c :: byte) = unat (of_nat (of_char c) :: byte)"
    by (simp only: of_nat_of_char)
  also have "\<dots> = of_char c mod 256"
    by (simp add: unat_of_nat)
  also have "\<dots> = of_char c"
    by simp
  finally show ?thesis by simp
qed

lemma bytes_of_string_of_bytes: "bytes_of_string (string_of_bytes bs) = bs"
  unfolding bytes_of_string_def string_of_bytes_def
  by (induction bs) (simp_all add: byte_of_char_of)

lemma string_of_bytes_of_string: "string_of_bytes (bytes_of_string s) = s"
  unfolding bytes_of_string_def string_of_bytes_def
  by (induction s) (simp_all add: char_of_byte_of)

lemma string_of_bytes_eq_iff: "string_of_bytes bs = s \<longleftrightarrow> bs = bytes_of_string s"
  by (metis bytes_of_string_of_bytes string_of_bytes_of_string)

lemma Decrypt_read_Err:
  "Decrypt_read lib a k l = Err e \<Longrightarrow> Decrypt lib a k l = (Err e, NewWorld)"
  by (simp add: Decrypt_def)

lemma Decrypt_not_read:
  "\<forall>x. Decrypt_read lib a k l \<noteq> Ok x \<Longrightarrow>
   fst (Decrypt lib a k l) \<noteq> Ok () \<and> snd (Decrypt lib a k l) = NewWorld"
  by (cases "Decrypt_read lib a k l") (simp_all add: Decrypt_def)

lemma Decrypt_read_Ok:
  "Decrypt_read lib a k l = Ok (inFile, ck, efs) \<Longrightarrow>
   a = Ok inFile \<and> listEncryptedFiles lib inFile = Ok efs"
  by (auto simp: Decrypt_read_def or_wrap_Ok_iff split: if_splits)

text \<open>
  Claim C3. Whenever the decrypted key check differs from the bytes of the license \<^verbatim>\<open>id\<close>,
  \<^verbatim>\<open>getContentKey\<close> returns the key-mismatch error and no content key, and \<^verbatim>\<open>Decrypt\<close>, given a
  user key that decodes to this key and this license document, returns that error with the
  destination untouched: no entry written, no central directory.
\<close>

theorem getContentKey_key_check_mismatch:
  assumes "json_Decode lib licenseFile = Ok license"
    and "base64_DecodeString lib (KeyCheck license) = Ok encryptedKeyCheck"
    and "decipherAES256CBC lib encryptedKeyCheck userKey = Ok keyCheck"
    and "keyCheck \<noteq> bytes_of_string (ID license)"
  shows "getContentKey lib licenseFile userKey = Err (KeyCheckMismatch keyCheck (ID license))
    \<and> (\<forall>inFile userKeyHex lf.
          userKeyHex \<noteq> [] \<and> hex_DecodeString lib userKeyHex = Ok userKey
          \<and> (case lf of None \<Rightarrow> zip_Open lib inFile ''META-INF/license.lcpl'' | Some l \<Rightarrow> Ok l)
              = Ok licenseFile
          \<longrightarrow> Decrypt lib (Ok inFile) userKeyHex lf
                = (Err (Wrap ''error getting content key''
                         (KeyCheckMismatch keyCheck (ID license))), NewWorld)
              \<and> out_entries NewWorld = [] \<and> \<not> out_closed NewWorld)"
proof -
  have ne: "string_of_bytes keyCheck \<noteq> ID license"
    using assms(4) by (simp add: string_of_bytes_eq_iff)
  have g: "getContentKey lib licenseFile userKey = Err (KeyCheckMismatch keyCheck (ID license))"
    using assms(1-3) ne by (simp add: getContentKey_def or_wrap_def)
  have "Decrypt lib (Ok inFile) userKeyHex lf
          = (Err (Wrap ''error getting content key''
                   (KeyCheckMismatch keyCheck (ID license))), NewWorld)"
    if "userKeyHex \<noteq> []" "hex_DecodeString lib userKeyHex = Ok userKey"
       "(case lf of None \<Rightarrow> zip_Open lib inFile ''META-INF/license.lcpl'' | Some l \<Rightarrow> Ok l)
          = Ok licenseFile"
    for inFile userKeyHex lf
  proof -
    have "Decrypt_read lib (Ok inFile) userKeyHex lf
            = Err (Wrap ''error getting content key'' (KeyCheckMismatch keyCheck (ID license)))"
      using that g by (simp add: Decrypt_read_def or_wrap_def)
    then show ?thesis by (rule Decrypt_read_Err)
  qed
  then show ?thesis using g by (simp add: NewWorld_def)
qed

theorem getContentKey_key_check_mismatch_witness:
  "getContentKey (example_lib wrong_license example_manifest) \<lparr>sbytes = [], serror = None\<rparr> (replicate 32 0)
     = Err (KeyCheckMismatch (bytes_of_string ''book-42'') ''book-43'')
   \<and> Decrypt (example_lib wrong_license example_manifest) (Ok example_archive) example_key_hex None
     = (Err (Wrap ''error getting content key''
               (KeyCheckMismatch (bytes_of_string ''book-42'') ''book-43'')), NewWorld)"
proof -
  let ?lib = "example_lib wrong_license example_manifest"
  let ?f = "\<lparr>sbytes = [], serror = None\<rparr>"
  have 1: "json_Decode ?lib ?f = Ok wrong_license" by (simp add: example_lib_def)
  have 2: "base64_DecodeString ?lib (KeyCheck wrong_license)
             = Ok (bytes_of_string (KeyCheck wrong_license))"
    by (simp add: example_lib_def)
  have 3: "decipherAES256CBC ?lib (bytes_of_string (KeyCheck wrong_license)) (replicate 32 0)
             = Ok (bytes_of_string ''book-42'')"
    by code_simp
  have 4: "bytes_of_string ''book-42'' \<noteq> bytes_of_string (ID wrong_license)"
    by code_simp
  have 5: "hex_DecodeString ?lib example_key_hex = Ok (replicate 32 0)"
    by code_simp
  have 6: "(case None of None \<Rightarrow> zip_Open ?lib example_archive ''META-INF/license.lcpl''
             | Some l \<Rightarrow> Ok l) = Ok ?f"
    by (simp add: example_lib_def)
  have 7: "example_key_hex \<noteq> []" by (simp add: example_key_hex_def)
  show ?thesis
    using getContentKey_key_check_mismatch [OF 1 2 3 4] 5 6 7 by (simp add: wrong_license_def)
qed


section \<open>Properties of the manifest parser\<close>

lemma fileEntries_Ok_supported:
  "fileEntries lib ds res = Ok r \<Longrightarrow> d \<in> set ds \<Longrightarrow>
   Algorithm d = EncryptionAlgorithmAES256CBC \<or> Algorithm d = EncryptionAlgorithmFontObfuscation"
  by (induction ds arbitrary: res) (auto split: result.splits if_splits)

lemma fileEntries_first_failure:
  assumes "\<forall>x \<in> set ds1.
             (Algorithm x = EncryptionAlgorithmAES256CBC
              \<or> Algorithm x = EncryptionAlgorithmFontObfuscation)
             \<and> (\<exists>p. url_PathUnescape lib (URI x) = Ok p)"
    and "\<not> ((Algorithm d = EncryptionAlgorithmAES256CBC
              \<or> Algorithm d = EncryptionAlgorithmFontObfuscation)
             \<and> (\<exists>p. url_PathUnescape lib (URI d) = Ok p))"
  shows "fileEntries lib (ds1 @ d # ds2) res =
           (case url_PathUnescape lib (URI d) of
              Ok path \<Rightarrow> Err (UnsupportedAlgorithm path (Algorithm d))
            | Err e \<Rightarrow> Err (DecodePath (URI d) e)
            | Panicked p \<Rightarrow> Panicked p)"
  using assms
proof (induction ds1 arbitrary: res)
  case Nil
  then show ?case by (cases "url_PathUnescape lib (URI d)") auto
next
  case (Cons x ds1)
  then show ?case by auto
qed

text \<open>
  Claim C4, as stated: a manifest with a record of unsupported algorithm makes
  \<^verbatim>\<open>listEncryptedFiles\<close> fail with an error naming the entry's path and the raw identifier. It
  need not: the path of a record is decoded before its algorithm is looked at. In the
  manifest \<open>bad_uri_manifest\<close> the only record has an unsupported algorithm and the URI
  \<^verbatim>\<open>%zz\<close>; the error is the path-decoding error, which names the raw URI and not
  the algorithm identifier.
\<close>

theorem listEncryptedFiles_path_error_first:
  "Algorithm (hd bad_uri_manifest) \<noteq> EncryptionAlgorithmAES256CBC
   \<and> Algorithm (hd bad_uri_manifest) \<noteq> EncryptionAlgorithmFontObfuscation
   \<and> listEncryptedFiles (example_lib example_license bad_uri_manifest) example_archive
       = Err (DecodePath ''%zz'' (EscapeError ''%zz''))"
  by code_simp

text \<open>
  Claim C4, amended. Let the manifest hold a record \<open>d\<close> whose algorithm identifier is
  neither of the two known ones. Then \<^verbatim>\<open>listEncryptedFiles\<close> fails, and the failure is that of
  the first record whose URI does not decode or whose algorithm is unsupported, a record
  at \<open>d\<close> or before it: the error names its decoded path and its raw identifier when its
  URI decodes, and is the path-decoding error naming its raw URI when the decoder returns
  an error (a panic of the decoder goes through). In particular the error names the path
  and identifier of \<open>d\<close> when the records before \<open>d\<close> are well-formed and the URI of \<open>d\<close>
  decodes. And \<^verbatim>\<open>Decrypt\<close> on that archive fails for every user key and license before the
  loop over the entries starts: no entry of \<^verbatim>\<open>inFile.File\<close> has been opened with \<^verbatim>\<open>f.Open()\<close>,
  so no ciphertext has been read, none has been handed to a cipher strategy and no
  destination entry has been written, whatever the other records are.
\<close>

theorem listEncryptedFiles_unsupported_algorithm:
  assumes "zip_Open lib inFile ''META-INF/encryption.xml'' = Ok encFile"
    and "xml_Decode lib encFile = Ok ds"
    and "d \<in> set ds"
    and "Algorithm d \<noteq> EncryptionAlgorithmAES256CBC"
    and "Algorithm d \<noteq> EncryptionAlgorithmFontObfuscation"
  shows "(\<exists>ds1 d' ds2.
            ds = ds1 @ d' # ds2 \<and> d \<notin> set ds1
            \<and> (\<forall>x \<in> set ds1.
                  (Algorithm x = EncryptionAlgorithmAES256CBC
                   \<or> Algorithm x = EncryptionAlgorithmFontObfuscation)
                  \<and> (\<exists>p. url_PathUnescape lib (URI x) = Ok p))
            \<and> \<not> ((Algorithm d' = EncryptionAlgorithmAES256CBC
                     \<or> Algorithm d' = EncryptionAlgorithmFontObfuscation)
                    \<and> (\<exists>p. url_PathUnescape lib (URI d') = Ok p))
            \<and> listEncryptedFiles lib inFile =
                (case url_PathUnescape lib (URI d') of
                   Ok path \<Rightarrow> Err (UnsupportedAlgorithm path (Algorithm d'))
                 | Err e \<Rightarrow> Err (DecodePath (URI d') e)
                 | Panicked p \<Rightarrow> Panicked p))
    \<and> (\<forall>ds1 ds2 path.
          ds = ds1 @ d # ds2
          \<and> (\<forall>x \<in> set ds1.
                (Algorithm x = EncryptionAlgorithmAES256CBC
                 \<or> Algorithm x = EncryptionAlgorithmFontObfuscation)
                \<and> (\<exists>p. url_PathUnescape lib (URI x) = Ok p))
          \<and> url_PathUnescape lib (URI d) = Ok path
          \<longrightarrow> listEncryptedFiles lib inFile = Err (UnsupportedAlgorithm path (Algorithm d)))
    \<and> (\<forall>ds1 d' ds2 e.
          ds = ds1 @ d' # ds2
          \<and> (\<forall>x \<in> set ds1.
                (Algorithm x = EncryptionAlgorithmAES256CBC
                 \<or> Algorithm x = EncryptionAlgorithmFontObfuscation)
                \<and> (\<exists>p. url_PathUnescape lib (URI x) = Ok p))
          \<and> url_PathUnescape lib (URI d') = Err e
          \<longrightarrow> listEncryptedFiles lib inFile = Err (DecodePath (URI d') e))
    \<and> (\<forall>r. listEncryptedFiles lib inFile \<noteq> Ok r)
    \<and> (\<forall>userKeyHex licenseFile.
          fst (Decrypt lib (Ok inFile) userKeyHex licenseFile) \<noteq> Ok ()
          \<and> opened (snd (Decrypt lib (Ok inFile) userKeyHex licenseFile)) = []
          \<and> deciphered (snd (Decrypt lib (Ok inFile) userKeyHex licenseFile)) = []
          \<and> out_entries (snd (Decrypt lib (Ok inFile) userKeyHex licenseFile)) = [])"
proof -
  let ?good = "\<lambda>x. (Algorithm x = EncryptionAlgorithmAES256CBC
                      \<or> Algorithm x = EncryptionAlgorithmFontObfuscation)
                     \<and> (\<exists>p. url_PathUnescape lib (URI x) = Ok p)"
  have l: "listEncryptedFiles lib inFile = fileEntries lib ds []"
    using assms(1,2) by (simp add: listEncryptedFiles_def or_wrap_def)
  have bad: "\<not> ?good d" using assms(4,5) by simp
  then have "\<exists>x \<in> set ds. \<not> ?good x" using assms(3) by blast
  from split_list_first_prop [OF this] obtain ds1 d' ds2 where
    dec: "ds = ds1 @ d' # ds2" and d': "\<not> ?good d'" and before: "\<forall>x \<in> set ds1. \<not> \<not> ?good x"
    by blast
  from before have good: "\<forall>x \<in> set ds1. ?good x" by blast
  have notin: "d \<notin> set ds1" using good bad by blast
  have eq: "listEncryptedFiles lib inFile =
                (case url_PathUnescape lib (URI d') of
                   Ok path \<Rightarrow> Err (UnsupportedAlgorithm path (Algorithm d'))
                 | Err e \<Rightarrow> Err (DecodePath (URI d') e)
                 | Panicked p \<Rightarrow> Panicked p)"
    unfolding l dec by (rule fileEntries_first_failure [OF good d'])
  have ex: "\<exists>ds1 d' ds2.
            ds = ds1 @ d' # ds2 \<and> d \<notin> set ds1
            \<and> (\<forall>x \<in> set ds1. ?good x)
            \<and> \<not> ?good d'
            \<and> listEncryptedFiles lib inFile =
                (case url_PathUnescape lib (URI d') of
                   Ok path \<Rightarrow> Err (UnsupportedAlgorithm path (Algorithm d'))
                 | Err e \<Rightarrow> Err (DecodePath (URI d') e)
                 | Panicked p \<Rightarrow> Panicked p)"
    by (intro exI [of _ ds1] exI [of _ d'] exI [of _ ds2] conjI dec notin good d' eq)
  have unsupported:
    "listEncryptedFiles lib inFile = Err (UnsupportedAlgorithm path (Algorithm d))"
    if "ds = ds1 @ d # ds2" "\<forall>x \<in> set ds1. ?good x" "url_PathUnescape lib (URI d) = Ok path"
    for ds1 ds2 path
    using fileEntries_first_failure [OF that(2) bad, of ds2 "[]"] that(1,3) l by simp
  have undecodable: "listEncryptedFiles lib inFile = Err (DecodePath (URI d') e)"
    if "ds = ds1 @ d' # ds2" "\<forall>x \<in> set ds1. ?good x" "url_PathUnescape lib (URI d') = Err e"
    for ds1 d' ds2 e
  proof -
    have "\<not> ?good d'" using that(3) by simp
    from fileEntries_first_failure [OF that(2) this, of ds2 "[]"] that(1,3) l
    show ?thesis by simp
  qed
  have no: "listEncryptedFiles lib inFile \<noteq> Ok r" for r
    using fileEntries_Ok_supported [of lib ds "[]" r d] assms(3,4,5) l by auto
  have "\<forall>x. Decrypt_read lib (Ok inFile) userKeyHex licenseFile \<noteq> Ok x" for userKeyHex licenseFile
    using no Decrypt_read_Ok [of lib "Ok inFile" userKeyHex licenseFile] by fastforce
  then have run: "fst (Decrypt lib (Ok inFile) userKeyHex licenseFile) \<noteq> Ok ()
          \<and> opened (snd (Decrypt lib (Ok inFile) userKeyHex licenseFile)) = []
          \<and> deciphered (snd (Decrypt lib (Ok inFile) userKeyHex licenseFile)) = []
          \<and> out_entries (snd (Decrypt lib (Ok inFile) userKeyHex licenseFile)) = []"
    for userKeyHex licenseFile
    using Decrypt_not_read [of lib "Ok inFile" userKeyHex licenseFile]
    by (simp add: NewWorld_def)
  show ?thesis
  proof (intro conjI)
    show "\<exists>ds1 d' ds2.
            ds = ds1 @ d' # ds2 \<and> d \<notin> set ds1
            \<and> (\<forall>x \<in> set ds1. ?good x)
            \<and> \<not> ?good d'
            \<and> listEncryptedFiles lib inFile =
                (case url_PathUnescape lib (URI d') of
                   Ok path \<Rightarrow> Err (UnsupportedAlgorithm path (Algorithm d'))
                 | Err e \<Rightarrow> Err (DecodePath (URI d') e)
                 | Panicked p \<Rightarrow> Panicked p)"
      by (rule ex)
    show "\<forall>ds1 ds2 path.
          ds = ds1 @ d # ds2 \<and> (\<forall>x \<in> set ds1. ?good x)
          \<and> url_PathUnescape lib (URI d) = Ok path
          \<longrightarrow> listEncryptedFiles lib inFile = Err (UnsupportedAlgorithm path (Algorithm d))"
      using unsupported by (intro allI impI) (elim conjE)
    show "\<forall>ds1 d' ds2 e.
          ds = ds1 @ d' # ds2 \<and> (\<forall>x \<in> set ds1. ?good x)
          \<and> url_PathUnescape lib (URI d') = Err e
          \<longrightarrow> listEncryptedFiles lib inFile = Err (DecodePath (URI d') e)"
      using undecodable by (intro allI impI) (elim conjE)
    show "\<forall>r. listEncryptedFiles lib inFile \<noteq> Ok r"
      using no by (rule allI)
    show "\<forall>userKeyHex licenseFile.
          fst (Decrypt lib (Ok inFile) userKeyHex licenseFile) \<noteq> Ok ()
          \<and> opened (snd (Decrypt lib (Ok inFile) userKeyHex licenseFile)) = []
          \<and> deciphered (snd (Decrypt lib (Ok inFile) userKeyHex licenseFile)) = []
          \<and> out_entries (snd (Decrypt lib (Ok inFile) userKeyHex licenseFile)) = []"
      using run by (intro allI)
  qed
qed


theorem listEncryptedFiles_unsupported_algorithm_witness:
  "listEncryptedFiles (example_lib example_license bad_manifest) example_archive
     = Err (UnsupportedAlgorithm ''OEBPS/ch2.xhtml'' ''urn:example:rot13'')
   \<and> listEncryptedFiles (example_lib example_license early_bad_uri_manifest) example_archive
     = Err (DecodePath ''OEBPS/ch%3'' (EscapeError ''%3''))
   \<and> fst (Decrypt (example_lib example_license bad_manifest) (Ok example_archive)
            example_key_hex None) \<noteq> Ok ()
   \<and> opened (snd (Decrypt (example_lib example_license bad_manifest) (Ok example_archive)
                    example_key_hex None)) = []
   \<and> deciphered (snd (Decrypt (example_lib example_license bad_manifest) (Ok example_archive)
                        example_key_hex None)) = []
   \<and> out_entries (snd (Decrypt (example_lib example_license bad_manifest) (Ok example_archive)
                         example_key_hex None)) = []"
proof -
  let ?L = "example_lib example_license bad_manifest"
  let ?E = "example_lib example_license early_bad_uri_manifest"
  let ?f = "\<lparr>sbytes = [], serror = None\<rparr>"
  let ?d = "\<lparr>Algorithm = ''urn:example:rot13'', URI = ''OEBPS/ch2.xhtml'', Compression = []\<rparr>"
  let ?u = "\<lparr>Algorithm = EncryptionAlgorithmAES256CBC, URI = ''OEBPS/ch%3'', Compression = []\<rparr>"
  have 3: "Algorithm ?d \<noteq> EncryptionAlgorithmAES256CBC"
    by (simp add: EncryptionAlgorithmAES256CBC_def)
  have 4: "Algorithm ?d \<noteq> EncryptionAlgorithmFontObfuscation"
    by (simp add: EncryptionAlgorithmFontObfuscation_def)
  have L1: "zip_Open ?L example_archive ''META-INF/encryption.xml'' = Ok ?f"
    by (simp add: example_lib_def)
  have L2: "xml_Decode ?L ?f = Ok bad_manifest"
    by (simp add: example_lib_def)
  have L3: "?d \<in> set bad_manifest"
    by (simp add: bad_manifest_def)
  have Ldec: "bad_manifest = example_manifest @ ?d # []"
    by (simp add: bad_manifest_def)
  have e: "url_PathUnescape ?L ''OEBPS/ch%31.xhtml'' = Ok ''OEBPS/ch1.xhtml''"
    by code_simp
  have Lgood: "\<forall>x \<in> set example_manifest.
             (Algorithm x = EncryptionAlgorithmAES256CBC
              \<or> Algorithm x = EncryptionAlgorithmFontObfuscation)
             \<and> (\<exists>p. url_PathUnescape ?L (URI x) = Ok p)"
    using e by (simp add: example_manifest_def)
  have Lpath: "url_PathUnescape ?L (URI ?d) = Ok ''OEBPS/ch2.xhtml''"
    by code_simp
  note T = listEncryptedFiles_unsupported_algorithm [OF L1 L2 L3 3 4]
  have a: "listEncryptedFiles ?L example_archive
             = Err (UnsupportedAlgorithm ''OEBPS/ch2.xhtml'' ''urn:example:rot13'')"
    using T [THEN conjunct2, THEN conjunct1, rule_format, of example_manifest "[]"
               "''OEBPS/ch2.xhtml''"] Ldec Lgood Lpath
    by simp
  have c: "fst (Decrypt ?L (Ok example_archive) example_key_hex None) \<noteq> Ok ()
           \<and> opened (snd (Decrypt ?L (Ok example_archive) example_key_hex None)) = []
           \<and> deciphered (snd (Decrypt ?L (Ok example_archive) example_key_hex None)) = []
           \<and> out_entries (snd (Decrypt ?L (Ok example_archive) example_key_hex None)) = []"
    using T [THEN conjunct2, THEN conjunct2, THEN conjunct2, THEN conjunct2, rule_format,
             of example_key_hex None]
    by simp
  have E1: "zip_Open ?E example_archive ''META-INF/encryption.xml'' = Ok ?f"
    by (simp add: example_lib_def)
  have E2: "xml_Decode ?E ?f = Ok early_bad_uri_manifest"
    by (simp add: example_lib_def)
  have E3: "?d \<in> set early_bad_uri_manifest"
    by (simp add: early_bad_uri_manifest_def)
  have Edec: "early_bad_uri_manifest = [] @ ?u # [?d]"
    by (simp add: early_bad_uri_manifest_def)
  have Epath: "url_PathUnescape ?E (URI ?u) = Err (EscapeError ''%3'')"
    by code_simp
  have b: "listEncryptedFiles ?E example_archive
             = Err (DecodePath ''OEBPS/ch%3'' (EscapeError ''%3''))"
    using listEncryptedFiles_unsupported_algorithm [OF E1 E2 E3 3 4, THEN conjunct2, THEN conjunct2, THEN conjunct1, rule_format,
              of "[]" ?u "[?d]" "EscapeError ''%3''"] Edec Epath
    by simp
  from a b c show ?thesis by simp
qed

section \<open>Properties of the transcoder\<close>

lemma append_data_snoc: "append_data p (es @ [e]) = es @ [e\<lparr>edata := edata e @ p\<rparr>]"
  by (simp add: append_data_def)

lemma append_data_Nil: "append_data [] es = es"
  by (simp add: append_data_def)

lemma zip_CreateHeader_Ok:
  "zip_CreateHeader lib w name m = (Ok u, w') \<Longrightarrow>
   w' = w\<lparr>out_entries := out_entries w
            @ [\<lparr>ename = name, emethod = (if is_dir name then Store else m), edata = []\<rparr>]\<rparr>"
  by (auto simp: zip_CreateHeader_def split: option.splits)

lemma zip_Write_Ok:
  "zip_Write lib w p = (Ok u, w') \<Longrightarrow> w' = w\<lparr>out_entries := append_data p (out_entries w)\<rparr>"
  by (auto simp: zip_Write_def split: option.splits)

lemma io_Copy_Ok:
  "io_Copy lib w src = (Ok u, w') \<Longrightarrow>
   w' = w\<lparr>out_entries := append_data (sbytes src) (out_entries w)\<rparr> \<and> serror src = None"
  by (auto simp: io_Copy_def append_data_Nil split: if_splits prod.splits result.splits option.splits
           dest!: zip_Write_Ok)

lemma decryptFile_Ok:
  "decryptFile lib w src ck alg c = (Ok u, w') \<Longrightarrow>
   \<exists>data. w' = w\<lparr>out_entries := append_data data (out_entries w)\<rparr>"
  unfolding decryptFile_def Let_def
  by (auto split: if_splits prod.splits result.splits dest!: io_Copy_Ok)

lemma copyEntry_Ok:
  assumes "copyEntry lib ck m f w = (Ok u, w')"
  shows "\<exists>e. out_entries w' = out_entries w @ [e] \<and> copied m f e"
    and "out_comment w' = out_comment w"
    and "set (opened w') \<subseteq> set (opened w) \<union> {n. \<not> is_dir n}"
    and "set (deciphered w') \<subseteq> set (deciphered w) \<union> {n. \<not> is_dir n}"
  using assms unfolding copyEntry_def zip_Create_def Let_def copied_def
  by (auto simp: append_data_snoc split: if_splits prod.splits result.splits option.splits
           dest!: zip_CreateHeader_Ok io_Copy_Ok decryptFile_Ok)


lemma copyEntries_Ok:
  "copyEntries lib ck m fs w = (Ok u, w') \<Longrightarrow>
   (\<exists>es. out_entries w' = out_entries w @ es
         \<and> list_all2 (copied m) (filter (\<lambda>f. \<not> skipped (Name f)) fs) es)
   \<and> out_comment w' = out_comment w
   \<and> set (opened w') \<subseteq> set (opened w) \<union> {n. \<not> is_dir n}
   \<and> set (deciphered w') \<subseteq> set (deciphered w) \<union> {n. \<not> is_dir n}"
proof (induction fs arbitrary: w)
  case Nil
  then show ?case by simp
next
  case (Cons f fs)
  show ?case
  proof (cases "skipped (Name f)")
    case True
    with Cons.prems have "copyEntries lib ck m fs w = (Ok u, w')" by simp
    from Cons.IH [OF this] True show ?thesis by simp
  next
    case False
    with Cons.prems obtain u1 w1 where
      step: "copyEntry lib ck m f w = (Ok u1, w1)" and
      rest: "copyEntries lib ck m fs w1 = (Ok u, w')"
      by (auto split: prod.splits result.splits)
    from copyEntry_Ok(1) [OF step] obtain e where
      e: "out_entries w1 = out_entries w @ [e]" "copied m f e" by blast
    from Cons.IH [OF rest] obtain es where
      es: "out_entries w' = out_entries w1 @ es"
          "list_all2 (copied m) (filter (\<lambda>f. \<not> skipped (Name f)) fs) es"
      and c: "out_comment w' = out_comment w1"
      and o: "set (opened w') \<subseteq> set (opened w1) \<union> {n. \<not> is_dir n}"
      and d: "set (deciphered w') \<subseteq> set (deciphered w1) \<union> {n. \<not> is_dir n}"
      by blast
    have "out_entries w' = out_entries w @ (e # es)" using e es by simp
    moreover have "list_all2 (copied m) (filter (\<lambda>f. \<not> skipped (Name f)) (f # fs)) (e # es)"
      using False e es by simp
    moreover have "out_comment w' = out_comment w" using c copyEntry_Ok(2) [OF step] by simp
    moreover have "set (opened w') \<subseteq> set (opened w) \<union> {n. \<not> is_dir n}"
      using o copyEntry_Ok(3) [OF step] by blast
    moreover have "set (deciphered w') \<subseteq> set (deciphered w) \<union> {n. \<not> is_dir n}"
      using d copyEntry_Ok(4) [OF step] by blast
    ultimately show ?thesis by blast
  qed
qed

lemma zip_Close_Ok:
  "zip_Close lib w = (Ok u, w') \<Longrightarrow> w' = w\<lparr>out_closed := True\<rparr>"
  by (auto simp: zip_Close_def split: option.splits)

lemma Decrypt_Ok:
  assumes "Decrypt lib a k l = (Ok u, w)"
  shows "\<exists>inFile ck efs es.
           Decrypt_read lib a k l = Ok (inFile, ck, efs)
           \<and> out_entries w
               = \<lparr>ename = ''mimetype'', emethod = Store, edata = mimetype_content\<rparr> # es
           \<and> list_all2 (copied (groupFileEntriesByPath efs))
                (filter (\<lambda>f. \<not> skipped (Name f)) (File inFile)) es
           \<and> out_comment w = Comment inFile
           \<and> out_closed w
           \<and> (\<forall>n \<in> set (opened w). \<not> is_dir n)
           \<and> (\<forall>n \<in> set (deciphered w). \<not> is_dir n)"
proof -
  from assms obtain inFile ck efs where
    r: "Decrypt_read lib a k l = Ok (inFile, ck, efs)"
    by (cases "Decrypt_read lib a k l") (auto simp: Decrypt_def)
  let ?w1 = "NewWorld\<lparr>out_comment := Comment inFile\<rparr>"
  from assms r obtain u2 w2 u3 w3 u4 w4 u5 w5 where
    h: "zip_CreateHeader lib ?w1 ''mimetype'' Store = (Ok u2, w2)" and
    wr: "zip_Write lib w2 mimetype_content = (Ok u3, w3)" and
    lp: "copyEntries lib ck (groupFileEntriesByPath efs) (File inFile) w3 = (Ok u4, w4)" and
    cl: "zip_Close lib w4 = (Ok u5, w5)" and
    w: "w = w5\<lparr>logged := logged w5 @ [''Decrypted ePUB'']\<rparr>"
    by (auto simp: Decrypt_def zip_SetComment_def Let_def
             split: if_splits prod.splits result.splits)
  have w2: "out_entries w2 = [\<lparr>ename = ''mimetype'', emethod = Store, edata = []\<rparr>]"
           "out_comment w2 = Comment inFile" "opened w2 = []" "deciphered w2 = []"
    using zip_CreateHeader_Ok [OF h] by (simp_all add: NewWorld_def is_dir_def)
  have w3: "out_entries w3 = [\<lparr>ename = ''mimetype'', emethod = Store, edata = mimetype_content\<rparr>]"
           "out_comment w3 = Comment inFile" "opened w3 = []" "deciphered w3 = []"
    using zip_Write_Ok [OF wr] w2 append_data_snoc [of mimetype_content "[]"]
    by simp_all
  from copyEntries_Ok [OF lp] w3 obtain es where
    es: "out_entries w4
           = \<lparr>ename = ''mimetype'', emethod = Store, edata = mimetype_content\<rparr> # es"
        "list_all2 (copied (groupFileEntriesByPath efs))
           (filter (\<lambda>f. \<not> skipped (Name f)) (File inFile)) es"
    and c: "out_comment w4 = Comment inFile"
    and o: "set (opened w4) \<subseteq> {n. \<not> is_dir n}"
    and d: "set (deciphered w4) \<subseteq> {n. \<not> is_dir n}"
    by auto
  have "out_entries w = out_entries w4" "out_comment w = out_comment w4" "out_closed w"
       "opened w = opened w4" "deciphered w = deciphered w4"
    using zip_Close_Ok [OF cl] w by simp_all
  with r es c o d show ?thesis by auto
qed

lemma dom_foldl_update:
  "dom (foldl (\<lambda>res s. res(Path s \<mapsto> s)) m strs) = dom m \<union> Path ` set strs"
  by (induction strs arbitrary: m) auto

lemma dom_groupFileEntriesByPath: "dom (groupFileEntriesByPath strs) = set (map Path strs)"
  by (simp add: groupFileEntriesByPath_def dom_foldl_update)

lemma example_read:
  "Decrypt_read (example_lib example_license example_manifest) (Ok example_archive)
     example_key_hex None
   = Ok (example_archive, replicate 32 75,
         [\<lparr>Path = ''OEBPS/ch1.xhtml'', IsCompressed = True,
           EncryptionAlgorithm = EncryptionAlgorithmAES256CBC\<rparr>])"
  by code_simp

lemma example_run_value:
  "example_run =
     (Ok (),
      \<lparr>out_entries =
         [\<lparr>ename = ''mimetype'', emethod = Store,
           edata = bytes_of_string ''application/epub+zip''\<rparr>,
          \<lparr>ename = ''OEBPS/'', emethod = Store, edata = []\<rparr>,
          \<lparr>ename = ''OEBPS/ch1.xhtml'', emethod = Deflate, edata = bytes_of_string ''<html/>''\<rparr>,
          \<lparr>ename = ''OEBPS/cover.png'', emethod = Deflate, edata = bytes_of_string ''PNG''\<rparr>],
       out_comment = ''demo'', out_closed = True,
       opened = [''OEBPS/ch1.xhtml'', ''OEBPS/cover.png''],
       deciphered = [''OEBPS/ch1.xhtml''],
       logged = [''Processing file OEBPS/...'', ''Processing file OEBPS/ch1.xhtml...'',
                 ''Processing file OEBPS/cover.png...'', ''Decrypted ePUB'']\<rparr>)"
proof -
  let ?L = "example_lib example_license example_manifest"
  let ?m = "\<lparr>ename = ''mimetype'', emethod = Store, edata = mimetype_content\<rparr>"
  let ?w1 = "NewWorld\<lparr>out_comment := ''demo''\<rparr>"
  let ?w2 = "?w1\<lparr>out_entries := [\<lparr>ename = ''mimetype'', emethod = Store, edata = []\<rparr>]\<rparr>"
  let ?w3 = "?w1\<lparr>out_entries := [?m]\<rparr>"
  let ?w4 = "\<lparr>out_entries =
         [?m,
          \<lparr>ename = ''OEBPS/'', emethod = Store, edata = []\<rparr>,
          \<lparr>ename = ''OEBPS/ch1.xhtml'', emethod = Deflate, edata = bytes_of_string ''<html/>''\<rparr>,
          \<lparr>ename = ''OEBPS/cover.png'', emethod = Deflate, edata = bytes_of_string ''PNG''\<rparr>],
       out_comment = ''demo'', out_closed = False,
       opened = [''OEBPS/ch1.xhtml'', ''OEBPS/cover.png''],
       deciphered = [''OEBPS/ch1.xhtml''],
       logged = [''Processing file OEBPS/...'', ''Processing file OEBPS/ch1.xhtml...'',
                 ''Processing file OEBPS/cover.png...'']\<rparr>"
  have c: "zip_SetComment NewWorld (Comment example_archive) = Ok ?w1"
    by (simp add: zip_SetComment_def example_archive_def)
  have h: "zip_CreateHeader ?L ?w1 ''mimetype'' Store = (Ok (), ?w2)"
    by code_simp
  have w: "zip_Write ?L ?w2 mimetype_content = (Ok (), ?w3)"
    by code_simp
  have l: "copyEntries ?L (replicate 32 75)
             (groupFileEntriesByPath
                [\<lparr>Path = ''OEBPS/ch1.xhtml'', IsCompressed = True,
                  EncryptionAlgorithm = EncryptionAlgorithmAES256CBC\<rparr>])
             (File example_archive) ?w3 = (Ok (), ?w4)"
    by code_simp
  have z: "zip_Close ?L ?w4 = (Ok (), ?w4\<lparr>out_closed := True\<rparr>)"
    by code_simp
  have "example_run
          = (Ok (), ?w4\<lparr>out_closed := True,
                         logged := logged (?w4\<lparr>out_closed := True\<rparr>) @ [''Decrypted ePUB'']\<rparr>)"
    unfolding example_run_def Decrypt_def
    by (simp only: example_read c h w l z result.case prod.case Let_def)
  then show ?thesis by (simp add: mimetype_content_def)
qed

lemma example_run_Ok:
  "Decrypt (example_lib example_license example_manifest) (Ok example_archive)
     example_key_hex None = (Ok (), snd example_run)"
  using example_run_value by (simp add: example_run_def)

text \<open>
  Claim C5, as stated: the mimetype entry holds the 21-byte string
  \<^verbatim>\<open>application/epub+zip\<close>. That string has 20 bytes: the example run succeeds and its first
  entry is 20 bytes long.
\<close>

theorem Decrypt_mimetype_is_20_bytes:
  "fst example_run = Ok ()
   \<and> length (edata (hd (out_entries (snd example_run)))) = 20"
  by (simp add: example_run_value bytes_of_string_def)

text \<open>
  Claim C5, amended. Whenever \<^verbatim>\<open>Decrypt\<close> succeeds, the first entry of the destination is
  named \<^verbatim>\<open>mimetype\<close>, is stored uncompressed, and its content is exactly the 20-byte ASCII
  string \<^verbatim>\<open>application/epub+zip\<close>.
\<close>

theorem Decrypt_mimetype_first:
  "Decrypt lib inArchive userKeyHex licenseFile = (Ok (), w) \<Longrightarrow>
   out_entries w \<noteq> []
   \<and> ename (hd (out_entries w)) = ''mimetype''
   \<and> emethod (hd (out_entries w)) = Store
   \<and> edata (hd (out_entries w)) = bytes_of_string ''application/epub+zip''
   \<and> length (edata (hd (out_entries w))) = 20"
proof -
  assume "Decrypt lib inArchive userKeyHex licenseFile = (Ok (), w)"
  from Decrypt_Ok [OF this] obtain es where
    "out_entries w = \<lparr>ename = ''mimetype'', emethod = Store, edata = mimetype_content\<rparr> # es"
    by blast
  then show ?thesis by (simp add: mimetype_content_def bytes_of_string_def)
qed

theorem Decrypt_mimetype_first_witness:
  "out_entries (snd example_run) \<noteq> []
   \<and> ename (hd (out_entries (snd example_run))) = ''mimetype''
   \<and> emethod (hd (out_entries (snd example_run))) = Store
   \<and> edata (hd (out_entries (snd example_run))) = bytes_of_string ''application/epub+zip''
   \<and> length (edata (hd (out_entries (snd example_run)))) = 20"
  by (rule Decrypt_mimetype_first [OF example_run_Ok])

text \<open>
  Claim C6. Whenever \<^verbatim>\<open>Decrypt\<close> succeeds, the names of the destination entries are
  \<^verbatim>\<open>mimetype\<close> followed by the names of the source entries in source order, those named
  \<^verbatim>\<open>META-INF/encryption.xml\<close>, \<^verbatim>\<open>META-INF/license.lcpl\<close> and \<^verbatim>\<open>mimetype\<close> left out; an entry whose
  name ends in a slash has no data, is never opened and never handed to a cipher
  strategy; and the comment of the destination is the comment of the source.
\<close>

theorem Decrypt_entries_in_source_order:
  "Decrypt lib inArchive userKeyHex licenseFile = (Ok (), w) \<Longrightarrow>
   \<exists>inFile. inArchive = Ok inFile
     \<and> map ename (out_entries w)
         = ''mimetype'' # filter (\<lambda>n. \<not> skipped n) (map Name (File inFile))
     \<and> (\<forall>e \<in> set (tl (out_entries w)). \<not> skipped (ename e))
     \<and> (\<forall>e \<in> set (out_entries w). is_dir (ename e) \<longrightarrow> edata e = [])
     \<and> (\<forall>n \<in> set (deciphered w). \<not> is_dir n)
     \<and> (\<forall>n \<in> set (opened w). \<not> is_dir n)
     \<and> out_comment w = Comment inFile"
proof -
  assume "Decrypt lib inArchive userKeyHex licenseFile = (Ok (), w)"
  from Decrypt_Ok [OF this] obtain inFile ck efs es where
    r: "Decrypt_read lib inArchive userKeyHex licenseFile = Ok (inFile, ck, efs)" and
    oe: "out_entries w
           = \<lparr>ename = ''mimetype'', emethod = Store, edata = mimetype_content\<rparr> # es" and
    la: "list_all2 (copied (groupFileEntriesByPath efs))
           (filter (\<lambda>f. \<not> skipped (Name f)) (File inFile)) es" and
    rest: "out_comment w = Comment inFile" "\<forall>n \<in> set (opened w). \<not> is_dir n"
          "\<forall>n \<in> set (deciphered w). \<not> is_dir n"
    by blast
  have a: "inArchive = Ok inFile" using Decrypt_read_Ok [OF r] by simp
  have names: "map ename es = map Name (filter (\<lambda>f. \<not> skipped (Name f)) (File inFile))"
    using la by (induction rule: list_all2_induct) (simp_all add: copied_def)
  have names': "map ename es = filter (\<lambda>n. \<not> skipped n) (map Name (File inFile))"
    using names by (simp add: filter_map comp_def)
  have ns: "\<forall>e \<in> set es. \<not> skipped (ename e)"
  proof
    fix e assume "e \<in> set es"
    then have "ename e \<in> set (map ename es)" by simp
    then show "\<not> skipped (ename e)" unfolding names' by simp
  qed
  have dirs: "\<forall>e \<in> set es. is_dir (ename e) \<longrightarrow> edata e = []"
    using la by (induction rule: list_all2_induct) (simp_all add: copied_def)
  show ?thesis
    using a oe names' ns dirs rest by (simp add: is_dir_def)
qed

theorem Decrypt_entries_in_source_order_witness:
  "map ename (out_entries (snd example_run))
     = [''mimetype'', ''OEBPS/'', ''OEBPS/ch1.xhtml'', ''OEBPS/cover.png'']
   \<and> out_comment (snd example_run) = ''demo''
   \<and> ''OEBPS/'' \<notin> set (deciphered (snd example_run))"
proof -
  from Decrypt_entries_in_source_order [OF example_run_Ok] obtain inFile where
    a: "Ok example_archive = Ok inFile" and
    n: "map ename (out_entries (snd example_run))
         = ''mimetype'' # filter (\<lambda>n. \<not> skipped n) (map Name (File inFile))" and
    d: "\<forall>n \<in> set (deciphered (snd example_run)). \<not> is_dir n" and
    c: "out_comment (snd example_run) = Comment inFile"
    by auto
  from a have i: "inFile = example_archive" by simp
  have "is_dir ''OEBPS/''" by (simp add: is_dir_def)
  with d have "''OEBPS/'' \<notin> set (deciphered (snd example_run))" by blast
  moreover have "filter (\<lambda>n. \<not> skipped n) (map Name (File example_archive))
                   = [''OEBPS/'', ''OEBPS/ch1.xhtml'', ''OEBPS/cover.png'']"
    by (simp add: example_archive_def skipped_def)
  ultimately show ?thesis using n c i by (simp add: example_archive_def)
qed

text \<open>
  Claim C7. Whenever \<^verbatim>\<open>Decrypt\<close> succeeds, the destination entry that follows the mimetype
  entry at position \<open>i\<close> has the name of the \<open>i\<close>-th source entry that is not passed over,
  and when that name is not a path of the manifest and not a directory marker, the bytes of
  the destination entry are the bytes read from the source entry.
\<close>

theorem Decrypt_copies_unlisted_entries:
  "Decrypt lib (Ok inFile) userKeyHex licenseFile = (Ok (), w) \<Longrightarrow>
   \<exists>encryptedFiles.
     listEncryptedFiles lib inFile = Ok encryptedFiles
     \<and> length (out_entries w) = Suc (length (filter (\<lambda>f. \<not> skipped (Name f)) (File inFile)))
     \<and> (\<forall>i < length (filter (\<lambda>f. \<not> skipped (Name f)) (File inFile)).
          ename (out_entries w ! Suc i)
            = Name (filter (\<lambda>f. \<not> skipped (Name f)) (File inFile) ! i)
          \<and> (Name (filter (\<lambda>f. \<not> skipped (Name f)) (File inFile) ! i)
                \<notin> set (map Path encryptedFiles)
              \<and> \<not> is_dir (Name (filter (\<lambda>f. \<not> skipped (Name f)) (File inFile) ! i))
              \<longrightarrow> (\<exists>src. fopen (filter (\<lambda>f. \<not> skipped (Name f)) (File inFile) ! i) = Ok src
                         \<and> serror src = None
                         \<and> edata (out_entries w ! Suc i) = sbytes src)))"
proof -
  assume "Decrypt lib (Ok inFile) userKeyHex licenseFile = (Ok (), w)"
  from Decrypt_Ok [OF this] obtain inFile' ck efs es where
    r: "Decrypt_read lib (Ok inFile) userKeyHex licenseFile = Ok (inFile', ck, efs)" and
    oe: "out_entries w
           = \<lparr>ename = ''mimetype'', emethod = Store, edata = mimetype_content\<rparr> # es" and
    la: "list_all2 (copied (groupFileEntriesByPath efs))
           (filter (\<lambda>f. \<not> skipped (Name f)) (File inFile')) es"
    by blast
  from Decrypt_read_Ok [OF r] have eq: "inFile' = inFile"
    and l: "listEncryptedFiles lib inFile = Ok efs" by simp_all
  let ?kept = "filter (\<lambda>f. \<not> skipped (Name f)) (File inFile)"
  have len: "length es = length ?kept" using la eq by (simp add: list_all2_lengthD)
  have nth: "copied (groupFileEntriesByPath efs) (?kept ! i) (es ! i)" if "i < length ?kept" for i
    using la eq that by (simp add: list_all2_nthD)
  have none: "groupFileEntriesByPath efs n = None" if "n \<notin> set (map Path efs)" for n
    using that dom_groupFileEntriesByPath [of efs] by blast
  show ?thesis
    using l len oe nth none unfolding copied_def by (intro exI [of _ efs]) auto
qed


lemma example_listing:
  "listEncryptedFiles (example_lib example_license example_manifest) example_archive
     = Ok [\<lparr>Path = ''OEBPS/ch1.xhtml'', IsCompressed = True,
            EncryptionAlgorithm = EncryptionAlgorithmAES256CBC\<rparr>]"
  by code_simp

theorem Decrypt_copies_unlisted_entries_witness:
  "ename (out_entries (snd example_run) ! 3) = ''OEBPS/cover.png''
   \<and> edata (out_entries (snd example_run) ! 3) = bytes_of_string ''PNG''"
proof -
  let ?kept = "filter (\<lambda>f. \<not> skipped (Name f)) (File example_archive)"
  from Decrypt_copies_unlisted_entries [OF example_run_Ok] obtain efs where
    l: "listEncryptedFiles (example_lib example_license example_manifest) example_archive = Ok efs"
    and all: "\<forall>i < length ?kept.
          ename (out_entries (snd example_run) ! Suc i) = Name (?kept ! i)
          \<and> (Name (?kept ! i) \<notin> set (map Path efs) \<and> \<not> is_dir (Name (?kept ! i))
              \<longrightarrow> (\<exists>src. fopen (?kept ! i) = Ok src \<and> serror src = None
                         \<and> edata (out_entries (snd example_run) ! Suc i) = sbytes src))"
    by blast
  have efs: "map Path efs = [''OEBPS/ch1.xhtml'']" using l example_listing by auto
  have kept: "?kept =
     [\<lparr>Name = ''OEBPS/'', fopen = plain [], fclose = None\<rparr>,
      \<lparr>Name = ''OEBPS/ch1.xhtml'',
       fopen = plain (replicate 16 (CHR 0x00) @ ''<html/>'' @ replicate 9 (CHR 0x09)),
       fclose = None\<rparr>,
      \<lparr>Name = ''OEBPS/cover.png'', fopen = plain ''PNG'', fclose = None\<rparr>]"
    by (simp add: example_archive_def skipped_def)
  from all [rule_format, of 2] show ?thesis
    unfolding kept efs by (auto simp add: is_dir_def plain_def numeral_3_eq_3)
qed


lemma with_header_error_fields:
  "hex_DecodeString (with_header_error e' lib) = hex_DecodeString lib"
  "base64_DecodeString (with_header_error e' lib) = base64_DecodeString lib"
  "json_Decode (with_header_error e' lib) = json_Decode lib"
  "xml_Decode (with_header_error e' lib) = xml_Decode lib"
  "url_PathUnescape (with_header_error e' lib) = url_PathUnescape lib"
  "aes_Decrypt (with_header_error e' lib) = aes_Decrypt lib"
  "flate_NewReader (with_header_error e' lib) = flate_NewReader lib"
  "zip_Open (with_header_error e' lib) = zip_Open lib"
  by (simp_all add: with_header_error_def)

lemma with_header_error_out_fail:
  "op \<noteq> OpCreateHeader ''mimetype'' Store \<Longrightarrow>
   out_fail (with_header_error e' lib) w op = out_fail lib w op"
  by (simp add: with_header_error_def)

lemma with_header_error_decipher:
  "decipherAES256CBC (with_header_error e' lib) = decipherAES256CBC lib"
  by (intro ext) (unfold decipherAES256CBC_def with_header_error_fields, rule refl)

lemma with_header_error_getContentKey:
  "getContentKey (with_header_error e' lib) = getContentKey lib"
  by (intro ext)
     (unfold getContentKey_def with_header_error_fields with_header_error_decipher, rule refl)

lemma with_header_error_fileEntries:
  "fileEntries (with_header_error e' lib) ds res = fileEntries lib ds res"
proof (induction ds arbitrary: res)
  case Nil
  show ?case by simp
next
  case (Cons d ds)
  show ?case
    by (cases "url_PathUnescape lib (URI d)") (simp_all add: with_header_error_fields Cons.IH)
qed

lemma with_header_error_listEncryptedFiles:
  "listEncryptedFiles (with_header_error e' lib) = listEncryptedFiles lib"
  by (intro ext)
     (unfold listEncryptedFiles_def with_header_error_fields with_header_error_fileEntries,
      rule refl)

lemma with_header_error_Decrypt_read:
  "Decrypt_read (with_header_error e' lib) = Decrypt_read lib"
  by (intro ext)
     (unfold Decrypt_read_def with_header_error_fields with_header_error_getContentKey
        with_header_error_listEncryptedFiles, rule refl)

lemma with_header_error_zip_Write:
  "zip_Write (with_header_error e' lib) = zip_Write lib"
  by (simp add: fun_eq_iff zip_Write_def with_header_error_out_fail)

lemma with_header_error_zip_Close:
  "zip_Close (with_header_error e' lib) = zip_Close lib"
  by (simp add: fun_eq_iff zip_Close_def with_header_error_out_fail)

lemma with_header_error_zip_Create:
  "zip_Create (with_header_error e' lib) = zip_Create lib"
  by (simp add: fun_eq_iff zip_Create_def zip_CreateHeader_def with_header_error_out_fail)

lemma with_header_error_io_Copy:
  "io_Copy (with_header_error e' lib) = io_Copy lib"
  by (intro ext) (unfold io_Copy_def with_header_error_zip_Write, rule refl)

lemma with_header_error_decryptFile:
  "decryptFile (with_header_error e' lib) = decryptFile lib"
  by (intro ext)
     (unfold decryptFile_def with_header_error_fields with_header_error_decipher
        with_header_error_io_Copy, rule refl)

lemma with_header_error_copyEntry:
  "copyEntry (with_header_error e' lib) = copyEntry lib"
  by (intro ext)
     (unfold copyEntry_def with_header_error_zip_Create with_header_error_io_Copy
        with_header_error_decryptFile, rule refl)

lemma with_header_error_copyEntries:
  "copyEntries (with_header_error e' lib) ck m fs w = copyEntries lib ck m fs w"
  by (induction fs arbitrary: w)
     (simp_all add: with_header_error_copyEntry split: prod.splits result.splits)

lemma with_header_error_CreateHeader:
  "zip_CreateHeader (with_header_error e' lib) w ''mimetype'' Store =
     (case zip_CreateHeader lib w ''mimetype'' Store of
        (Err e, w2) \<Rightarrow> (Err e', w2)
      | r \<Rightarrow> r)"
  by (simp add: zip_CreateHeader_def with_header_error_def split: option.splits)

text \<open>
  Claim C10. The error returned by the creation of the mimetype header is discarded:
  replacing it by any other error value changes nothing in what \<^verbatim>\<open>Decrypt\<close> returns and
  leaves behind, so \<^verbatim>\<open>Decrypt\<close> never reports it. When that creation fails (the earlier steps
  having succeeded), the failure comes out only through the write that follows: the
  write of the mimetype content goes to a nil writer and panics.
\<close>

theorem Decrypt_header_error_discarded:
  "Decrypt (with_header_error e' lib) inArchive userKeyHex licenseFile
     = Decrypt lib inArchive userKeyHex licenseFile
   \<and> (Decrypt_read lib inArchive userKeyHex licenseFile = Ok (inFile, contentKey, encryptedFiles)
      \<and> length (Comment inFile) \<le> 65535
      \<and> out_fail lib (NewWorld\<lparr>out_comment := Comment inFile\<rparr>)
           (OpCreateHeader ''mimetype'' Store) = Some e
      \<longrightarrow> Decrypt lib inArchive userKeyHex licenseFile
            = (Panicked NilDereference, NewWorld\<lparr>out_comment := Comment inFile\<rparr>))"
proof
  show "Decrypt (with_header_error e' lib) inArchive userKeyHex licenseFile
          = Decrypt lib inArchive userKeyHex licenseFile"
    unfolding Decrypt_def
    by (simp add: with_header_error_Decrypt_read with_header_error_zip_Write
          with_header_error_zip_Close with_header_error_copyEntries
          with_header_error_CreateHeader Let_def
          split: result.splits prod.splits)
  show "Decrypt_read lib inArchive userKeyHex licenseFile = Ok (inFile, contentKey, encryptedFiles)
      \<and> length (Comment inFile) \<le> 65535
      \<and> out_fail lib (NewWorld\<lparr>out_comment := Comment inFile\<rparr>)
           (OpCreateHeader ''mimetype'' Store) = Some e
      \<longrightarrow> Decrypt lib inArchive userKeyHex licenseFile
            = (Panicked NilDereference, NewWorld\<lparr>out_comment := Comment inFile\<rparr>)"
    by (simp add: Decrypt_def zip_SetComment_def zip_CreateHeader_def Let_def)
qed


lemma failing_header_read:
  "Decrypt_read failing_header_lib (Ok example_archive) example_key_hex None
   = Ok (example_archive, replicate 32 75,
         [\<lparr>Path = ''OEBPS/ch1.xhtml'', IsCompressed = True,
           EncryptionAlgorithm = EncryptionAlgorithmAES256CBC\<rparr>])"
  by code_simp

theorem Decrypt_header_error_discarded_witness:
  "Decrypt failing_header_lib (Ok example_archive) example_key_hex None
     = (Panicked NilDereference, NewWorld\<lparr>out_comment := ''demo''\<rparr>)
   \<and> Decrypt (with_header_error (LibError ''disk full'') failing_header_lib)
        (Ok example_archive) example_key_hex None
     = (Panicked NilDereference, NewWorld\<lparr>out_comment := ''demo''\<rparr>)"
proof -
  have 1: "length (Comment example_archive) \<le> 65535"
    by (simp add: example_archive_def)
  have 2: "out_fail failing_header_lib (NewWorld\<lparr>out_comment := Comment example_archive\<rparr>)
             (OpCreateHeader ''mimetype'' Store) = Some (LibError ''write failed'')"
    by (simp add: failing_header_lib_def)
  have 3: "Comment example_archive = ''demo''"
    by (simp add: example_archive_def)
  show ?thesis
    using Decrypt_header_error_discarded [of "LibError ''disk full''" failing_header_lib "Ok example_archive"
                 example_key_hex None example_archive "replicate 32 75" _
                 "LibError ''write failed''"]
      failing_header_read 1 2 3
    by simp
qed


end
